theory Spec2Isabelle
  imports Complex_Main "HOL-Library.AList"
begin

section \<open>Strings\<close>

text \<open>
  A Python \<open>str\<close> is modelled as a \<open>string\<close> whose characters are the code points
  0..255 (Latin-1); \<open>length\<close> is then Python's \<open>len\<close>.  On these code points
  \<open>str.strip()\<close> removes the characters for which \<open>str.isspace\<close> holds
  (9..13, 28..32, 133 and 160) from both ends, and \<open>str.lower()\<close> maps
  A..Z and the upper-case letters 192..222 (215, the multiplication sign, apart)
  to the code point 32 above and leaves every other character alone.
\<close>

definition isspace :: "char \<Rightarrow> bool" where
  "isspace c =
     (let n = (of_char c :: nat)
      in (9 \<le> n \<and> n \<le> 13) \<or> (28 \<le> n \<and> n \<le> 32) \<or> n = 133 \<or> n = 160)"

definition lower_char :: "char \<Rightarrow> char" where
  "lower_char c =
     (let n = (of_char c :: nat)
      in if (65 \<le> n \<and> n \<le> 90) \<or> (192 \<le> n \<and> n \<le> 222 \<and> n \<noteq> 215)
         then char_of (n + 32) else c)"

definition strip :: "string \<Rightarrow> string" where
  "strip s = rev (dropWhile isspace (rev (dropWhile isspace s)))"

definition lower :: "string \<Rightarrow> string" where
  "lower s = map lower_char s"

section \<open>services/cache\_service.py\<close>

subsection \<open>CacheEntry\<close>

text \<open>
  Timestamps are the readings of \<open>time.time()\<close>; they are only stored and compared,
  and are modelled as reals.  Every function that reads the clock takes the reading as
  an argument.
\<close>

record 'v CacheEntry =
  entry_value :: 'v
  created_at :: real
  access_count :: int
  last_accessed :: real

text \<open>\<open>CacheEntry(value)\<close>: the two default factories read the clock one after the other.\<close>

definition CacheEntry_new :: "'v \<Rightarrow> real \<Rightarrow> real \<Rightarrow> 'v CacheEntry" where
  "CacheEntry_new v t_created t_accessed =
     \<lparr>entry_value = v, created_at = t_created, access_count = 0, last_accessed = t_accessed\<rparr>"

text \<open>\<open>CacheEntry.access\<close> mutates the entry and returns its value.\<close>

definition access :: "'v CacheEntry \<Rightarrow> real \<Rightarrow> 'v \<times> 'v CacheEntry" where
  "access e now =
     (let e1 = e\<lparr>access_count := access_count e + 1\<rparr>;
          e2 = e1\<lparr>last_accessed := now\<rparr>
      in (entry_value e2, e2))"

subsection \<open>LRUCache\<close>

text \<open>
  The dictionary \<open>_cache\<close> is an association list in insertion order, which is the order
  Python's \<open>dict.items()\<close> yields: assigning to a key that is present keeps its place,
  assigning to a new key appends (\<open>AList.update\<close>), \<open>del\<close> takes the key out
  (\<open>AList.delete\<close>).  The lock is left out: the model is of one thread.
\<close>

record 'v LRUCache =
  max_size :: int
  cleanup_batch_size :: int
  cache :: "(string \<times> 'v CacheEntry) list"

definition LRUCache_init :: "int \<Rightarrow> int \<Rightarrow> 'v LRUCache" where
  "LRUCache_init m b = \<lparr>max_size = m, cleanup_batch_size = b, cache = []\<rparr>"

text \<open>Python's \<open>xs[:n]\<close>: a negative \<open>n\<close> counts from the end.\<close>

definition slice_upto :: "'a list \<Rightarrow> int \<Rightarrow> 'a list" where
  "slice_upto xs n = take (nat (if n < 0 then int (length xs) + n else n)) xs"

definition get :: "'v LRUCache \<Rightarrow> string \<Rightarrow> real \<Rightarrow> 'v option \<times> 'v LRUCache" where
  "get c key now =
     (case map_of (cache c) key of
        Some entry \<Rightarrow>
          (let (v, entry') = access entry now
           in (Some v, c\<lparr>cache := AList.update key entry' (cache c)\<rparr>))
      | None \<Rightarrow> (None, c))"

text \<open>
  \<open>sorted\<close> is stable, as \<open>sort_key\<close> is; the keys deleted are keys of the dictionary
  itself, so \<open>del\<close> never raises.
\<close>

definition cleanup :: "'v LRUCache \<Rightarrow> 'v LRUCache" where
  "cleanup c =
     (if int (length (cache c)) < cleanup_batch_size c then c
      else
        let sorted_entries = sort_key (\<lambda>item. last_accessed (snd item)) (cache c)
        in c\<lparr>cache := foldl (\<lambda>d item. AList.delete (fst item) d) (cache c)
                          (slice_upto sorted_entries (cleanup_batch_size c))\<rparr>)"

definition put :: "'v LRUCache \<Rightarrow> string \<Rightarrow> 'v \<Rightarrow> real \<Rightarrow> real \<Rightarrow> 'v LRUCache" where
  "put c key v t_created t_accessed =
     (let c1 = (if int (length (cache c)) \<ge> max_size c then cleanup c else c)
      in c1\<lparr>cache := AList.update key (CacheEntry_new v t_created t_accessed) (cache c1)\<rparr>)"

definition contains :: "'v LRUCache \<Rightarrow> string \<Rightarrow> bool" where
  "contains c key = (key \<in> fst ` set (cache c))"

definition cache_size :: "'v LRUCache \<Rightarrow> nat" where
  "cache_size c = length (cache c)"

definition clear :: "'v LRUCache \<Rightarrow> 'v LRUCache" where
  "clear c = c\<lparr>cache := []\<rparr>"

text \<open>A sequence of \<open>put\<close> calls, each with its key, its value and its two clock readings.\<close>

fun put_all :: "'v LRUCache \<Rightarrow> (string \<times> 'v \<times> real \<times> real) list \<Rightarrow> 'v LRUCache" where
  "put_all c [] = c"
| "put_all c ((k, v, tc, ta) # ps) = put_all (put c k v tc ta) ps"


subsection \<open>CacheService\<close>

record CacheConfig =
  max_cache_size :: int
  config_cleanup_batch_size :: int

record CacheService =
  grammar_cache :: "string LRUCache"
  summary_cache :: "string LRUCache"
  tone_cache :: "string LRUCache"

text \<open>\<open>//\<close> is floor division, as \<open>div\<close> on \<open>int\<close> is.\<close>

definition CacheService_init :: "CacheConfig \<Rightarrow> CacheService" where
  "CacheService_init cache_config =
     \<lparr>grammar_cache =
        LRUCache_init (max_cache_size cache_config) (config_cleanup_batch_size cache_config),
      summary_cache =
        LRUCache_init (max_cache_size cache_config div 2) (config_cleanup_batch_size cache_config),
      tone_cache =
        LRUCache_init (max_cache_size cache_config div 2) (config_cleanup_batch_size cache_config)\<rparr>"

definition normalize_key :: "string \<Rightarrow> string" where
  "normalize_key text = lower (strip text)"

definition get_grammar_correction ::
  "CacheService \<Rightarrow> string \<Rightarrow> real \<Rightarrow> string option \<times> CacheService" where
  "get_grammar_correction cs text now =
     (let key = normalize_key text;
          (result, c') = get (grammar_cache cs) key now
      in (result, cs\<lparr>grammar_cache := c'\<rparr>))"

definition cache_grammar_correction ::
  "CacheService \<Rightarrow> string \<Rightarrow> string \<Rightarrow> real \<Rightarrow> real \<Rightarrow> CacheService" where
  "cache_grammar_correction cs original_text corrected_text t_created t_accessed =
     (let key = normalize_key original_text
      in cs\<lparr>grammar_cache := put (grammar_cache cs) key corrected_text t_created t_accessed\<rparr>)"

definition get_summary ::
  "CacheService \<Rightarrow> string \<Rightarrow> real \<Rightarrow> string option \<times> CacheService" where
  "get_summary cs text now =
     (let key = normalize_key text;
          (result, c') = get (summary_cache cs) key now
      in (result, cs\<lparr>summary_cache := c'\<rparr>))"

definition cache_summary ::
  "CacheService \<Rightarrow> string \<Rightarrow> string \<Rightarrow> real \<Rightarrow> real \<Rightarrow> CacheService" where
  "cache_summary cs original_text summary t_created t_accessed =
     (let key = normalize_key original_text
      in cs\<lparr>summary_cache := put (summary_cache cs) key summary t_created t_accessed\<rparr>)"

definition tone_key :: "string \<Rightarrow> string \<Rightarrow> string" where
  "tone_key text tone = normalize_key text @ ''_'' @ tone"

definition get_tone_change ::
  "CacheService \<Rightarrow> string \<Rightarrow> string \<Rightarrow> real \<Rightarrow> string option \<times> CacheService" where
  "get_tone_change cs text tone now =
     (let key = tone_key text tone;
          (result, c') = get (tone_cache cs) key now
      in (result, cs\<lparr>tone_cache := c'\<rparr>))"

definition cache_tone_change ::
  "CacheService \<Rightarrow> string \<Rightarrow> string \<Rightarrow> string \<Rightarrow> real \<Rightarrow> real \<Rightarrow> CacheService" where
  "cache_tone_change cs original_text changed_text tone t_created t_accessed =
     (let key = tone_key original_text tone
      in cs\<lparr>tone_cache := put (tone_cache cs) key changed_text t_created t_accessed\<rparr>)"

definition clear_all_caches :: "CacheService \<Rightarrow> CacheService" where
  "clear_all_caches cs =
     cs\<lparr>grammar_cache := clear (grammar_cache cs),
        summary_cache := clear (summary_cache cs),
        tone_cache := clear (tone_cache cs)\<rparr>"

section \<open>config.py\<close>

record GenerationConfig =
  grammar_max_tokens_multiplier :: int
  grammar_min_tokens :: int
  grammar_temperature :: real
  grammar_top_p :: real
  grammar_top_k :: int
  grammar_repeat_penalty :: real
  summary_max_tokens :: int
  summary_min_tokens :: int
  summary_temperature :: real
  summary_top_p :: real
  summary_top_k :: int
  summary_repeat_penalty :: real
  tone_max_tokens_multiplier :: int
  tone_min_tokens :: int
  tone_temperature :: real
  tone_top_p :: real
  tone_top_k :: int
  tone_repeat_penalty :: real

record AppConfig =
  generation :: GenerationConfig
  cache_config :: CacheConfig
  stop_tokens :: "(string \<times> string list) list"

definition default_GenerationConfig :: GenerationConfig where
  "default_GenerationConfig =
     \<lparr>grammar_max_tokens_multiplier = 4, grammar_min_tokens = 100,
      grammar_temperature = 3 / 10, grammar_top_p = 9 / 10, grammar_top_k = 40,
      grammar_repeat_penalty = 105 / 100,
      summary_max_tokens = 200, summary_min_tokens = 100,
      summary_temperature = 2 / 10, summary_top_p = 8 / 10, summary_top_k = 40,
      summary_repeat_penalty = 105 / 100,
      tone_max_tokens_multiplier = 2, tone_min_tokens = 150,
      tone_temperature = 2 / 10, tone_top_p = 9 / 10, tone_top_k = 40,
      tone_repeat_penalty = 105 / 100\<rparr>"

definition default_CacheConfig :: CacheConfig where
  "default_CacheConfig = \<lparr>max_cache_size = 100, config_cleanup_batch_size = 20\<rparr>"

definition CONFIG :: AppConfig where
  "CONFIG =
     \<lparr>generation = default_GenerationConfig,
      cache_config = default_CacheConfig,
      stop_tokens =
        [(''default'', [''[INST]'', ''</s>'', ''[/INST]'']),
         (''summarize'', [''[INST]'', ''</s>'', ''[/INST]'']),
         (''tone_change'', [''[INST]'', ''</s>'', ''[/INST]''])]\<rparr>"

section \<open>models/llm\_interface.py\<close>

datatype meta_value = MBool bool | MStr string

record TextProcessingResult =
  processed_text :: string
  original_text :: string
  processing_time :: real
  success :: bool
  error_message :: "string option"
  metadata :: "(string \<times> meta_value) list option"

text \<open>The arguments of one \<open>generate_response\<close> call.\<close>

record gen_request =
  req_prompt :: string
  req_max_tokens :: int
  req_temperature :: real
  req_top_p :: real
  req_top_k :: int
  req_stop_tokens :: "string list"
  req_repeat_penalty :: real

text \<open>
  What a \<open>generate_response\<close> call does, as far as a processor looks at it:
  \<^item> \<open>Generated t\<close>: it returns a dictionary with \<open>success\<close> true and the text \<open>t\<close> at
    \<open>response.choices[0].text\<close>;
  \<^item> \<open>Failed err\<close>: it returns a dictionary with \<open>success\<close> false; \<open>err\<close> is what the
    dictionary has at \<open>error\<close>, a string or \<open>None\<close>;
  \<^item> \<open>Raised msg\<close>: it raises an exception \<open>e\<close> that is an instance of \<open>Exception\<close>, with
    \<open>str(e) = msg\<close> (a dictionary of another shape makes the processor's own indexing
    raise such an exception);
  \<^item> \<open>Interrupted msg\<close>: it raises an exception that is a \<open>BaseException\<close> and not an
    \<open>Exception\<close> (\<open>KeyboardInterrupt\<close>, \<open>SystemExit\<close>), which \<open>except Exception\<close> does not
    catch.
\<close>

datatype gen_outcome =
  Generated string | Failed "string option" | Raised string | Interrupted string

record ILLMProvider =
  is_loaded :: bool
  generate_response :: "gen_request \<Rightarrow> gen_outcome"

section \<open>services/text\_processors.py\<close>

definition GRAMMAR_CORRECTION :: "string \<Rightarrow> string" where
  "GRAMMAR_CORRECTION text =
     ''[INST] Fix all typos, grammar, and punctuation errors in the following text. Keep the same meaning and preserve line breaks. Only return the corrected text without any explanations.\<newline>\<newline>Text to fix: ''
     @ text @ '' [/INST]''"

definition SUMMARIZATION :: "string \<Rightarrow> string" where
  "SUMMARIZATION text =
     ''[INST] Summarize the following text in a concise and clear manner. Keep the main points and key information. Make it about 1/3 the length of the original. Only return the summarized text without any explanations.\<newline>\<newline>Text to summarize: ''
     @ text @ '' [/INST]''"

definition TONE_CHANGE :: "string \<Rightarrow> string" where
  "TONE_CHANGE text =
     ''[INST] Rewrite the following text to make it more formal and professional while keeping the same meaning. Use appropriate business language and tone. Only return the formal text without any explanations.\<newline>\<newline>Text to make formal: ''
     @ text @ '' [/INST]''"

text \<open>
  A processor holds its provider and the configuration.  The cache service is shared and
  mutated, so it is part of the state that every call takes and returns, together with
  the list of the requests the provider has received so far.
\<close>

record BaseTextProcessor =
  llm_provider :: ILLMProvider
  config :: AppConfig

record world =
  cache_service :: CacheService
  calls :: "gen_request list"

definition is_available :: "BaseTextProcessor \<Rightarrow> bool" where
  "is_available self = is_loaded (llm_provider self)"

definition validate_input :: "string \<Rightarrow> bool" where
  "validate_input text = (text \<noteq> [] \<and> strip text \<noteq> [])"

text \<open>
  The message is a string wherever the processor writes it; where it is the provider's
  \<open>response['error']\<close> it is whatever the provider put there, \<open>None\<close> included.
\<close>

definition create_error_result :: "string \<Rightarrow> string option \<Rightarrow> TextProcessingResult" where
  "create_error_result text error_message' =
     \<lparr>processed_text = text, original_text = text, processing_time = 0,
      success = False, error_message = error_message', metadata = None\<rparr>"

text \<open>
  A call of a processor returns a result (\<open>Inr\<close>), or an exception that the processor
  does not catch leaves it (\<open>Inl\<close>); the state is the one reached either way.
\<close>

datatype fault = Propagated string

text \<open>\<open>if cached_result:\<close> tests an \<open>Optional[str]\<close>: \<open>None\<close> and the empty string are false.\<close>

definition truthy :: "string option \<Rightarrow> bool" where
  "truthy r = (case r of None \<Rightarrow> False | Some s \<Rightarrow> s \<noteq> [])"

text \<open>\<open>str(KeyError(k))\<close> for a string key is the key between single quotes.\<close>

definition KeyError_str :: "string \<Rightarrow> string" where
  "KeyError_str k = [CHR 0x27] @ k @ [CHR 0x27]"

text \<open>
  \<open>clock i\<close> is the \<open>i\<close>-th reading of \<open>time.time()\<close> during the call; the lookup takes
  one reading when the key is in the cache and none otherwise.  The threshold
  \<open>len(text) * 0.3\<close> is computed in the reals (for a length below \<open>2 ^ 50\<close> the
  floating-point product compares with an integer as the exact one does).
\<close>

definition fix_grammar ::
  "BaseTextProcessor \<Rightarrow> (nat \<Rightarrow> real) \<Rightarrow> world \<Rightarrow> string \<Rightarrow> (fault + TextProcessingResult) \<times> world" where
  "fix_grammar self clock w text =
     (if \<not> validate_input text then (Inr (create_error_result text (Some ''Invalid input text'')), w)
      else if \<not> is_available self
      then (Inr (create_error_result text (Some ''Grammar corrector not available'')), w)
      else
        let (cached_result, cs1) = get_grammar_correction (cache_service w) text (clock 0);
            n = (if cached_result = None then 0 else 1);
            w1 = w\<lparr>cache_service := cs1\<rparr>
        in if truthy cached_result
           then (Inr \<lparr>processed_text = the cached_result, original_text = text,
                  processing_time = 0, success = True, error_message = None,
                  metadata = Some [(''from_cache'', MBool True)]\<rparr>, w1)
           else
             let start_time = clock n;
                 prompt = GRAMMAR_CORRECTION text;
                 gen_config = generation (config self)
             in case map_of (stop_tokens (config self)) ''default'' of
                  None \<Rightarrow> (Inr (create_error_result text (Some (KeyError_str ''default''))), w1)
                | Some stops \<Rightarrow>
                    let req = \<lparr>req_prompt = prompt,
                               req_max_tokens = max (grammar_min_tokens gen_config)
                                 (int (length text) * grammar_max_tokens_multiplier gen_config),
                               req_temperature = grammar_temperature gen_config,
                               req_top_p = grammar_top_p gen_config,
                               req_top_k = grammar_top_k gen_config,
                               req_stop_tokens = stops,
                               req_repeat_penalty = grammar_repeat_penalty gen_config\<rparr>;
                        w2 = w1\<lparr>calls := calls w1 @ [req]\<rparr>
                    in (case generate_response (llm_provider self) req of
                         Raised e \<Rightarrow> (Inr (create_error_result text (Some e)), w2)
                       | Failed err \<Rightarrow> (Inr (create_error_result text err), w2)
                       | Interrupted e \<Rightarrow> (Inl (Propagated e), w2)
                       | Generated out \<Rightarrow>
                           let processing_time = clock (n + 1) - start_time;
                               corrected_text = strip out
                           in if corrected_text = []
                                 \<or> real (length corrected_text) < real (length text) * (3 / 10)
                              then (Inr (create_error_result text (Some ''Invalid response from model'')), w2)
                              else
                                (Inr \<lparr>processed_text = corrected_text, original_text = text,
                                  processing_time = processing_time, success = True,
                                  error_message = None,
                                  metadata = Some [(''from_cache'', MBool False)]\<rparr>,
                                 w2\<lparr>cache_service :=
                                      cache_grammar_correction (cache_service w2) text
                                        corrected_text (clock (n + 2)) (clock (n + 3))\<rparr>)))"

definition summarize ::
  "BaseTextProcessor \<Rightarrow> (nat \<Rightarrow> real) \<Rightarrow> world \<Rightarrow> string \<Rightarrow> (fault + TextProcessingResult) \<times> world" where
  "summarize self clock w text =
     (if \<not> validate_input text then (Inr (create_error_result text (Some ''Invalid input text'')), w)
      else if \<not> is_available self
      then (Inr (create_error_result text (Some ''Text summarizer not available'')), w)
      else
        let (cached_result, cs1) = get_summary (cache_service w) text (clock 0);
            n = (if cached_result = None then 0 else 1);
            w1 = w\<lparr>cache_service := cs1\<rparr>
        in if truthy cached_result
           then (Inr \<lparr>processed_text = the cached_result, original_text = text,
                  processing_time = 0, success = True, error_message = None,
                  metadata = Some [(''from_cache'', MBool True)]\<rparr>, w1)
           else
             let start_time = clock n;
                 prompt = SUMMARIZATION text;
                 gen_config = generation (config self)
             in case map_of (stop_tokens (config self)) ''summarize'' of
                  None \<Rightarrow> (Inr (create_error_result text (Some (KeyError_str ''summarize''))), w1)
                | Some stops \<Rightarrow>
                    let req = \<lparr>req_prompt = prompt,
                               req_max_tokens = min (summary_max_tokens gen_config)
                                 (max (summary_min_tokens gen_config) (int (length text))),
                               req_temperature = summary_temperature gen_config,
                               req_top_p = summary_top_p gen_config,
                               req_top_k = summary_top_k gen_config,
                               req_stop_tokens = stops,
                               req_repeat_penalty = summary_repeat_penalty gen_config\<rparr>;
                        w2 = w1\<lparr>calls := calls w1 @ [req]\<rparr>
                    in (case generate_response (llm_provider self) req of
                         Raised e \<Rightarrow> (Inr (create_error_result text (Some e)), w2)
                       | Failed err \<Rightarrow> (Inr (create_error_result text err), w2)
                       | Interrupted e \<Rightarrow> (Inl (Propagated e), w2)
                       | Generated out \<Rightarrow>
                           let processing_time = clock (n + 1) - start_time;
                               summary_text = strip out
                           in if summary_text = []
                              then (Inr (create_error_result text (Some ''Empty summary response'')), w2)
                              else
                                (Inr \<lparr>processed_text = summary_text, original_text = text,
                                  processing_time = processing_time, success = True,
                                  error_message = None,
                                  metadata = Some [(''from_cache'', MBool False)]\<rparr>,
                                 w2\<lparr>cache_service :=
                                      cache_summary (cache_service w2) text
                                        summary_text (clock (n + 2)) (clock (n + 3))\<rparr>)))"

definition change_tone ::
  "BaseTextProcessor \<Rightarrow> (nat \<Rightarrow> real) \<Rightarrow> world \<Rightarrow> string \<Rightarrow> string
     \<Rightarrow> (fault + TextProcessingResult) \<times> world" where
  "change_tone self clock w text target_tone =
     (if \<not> validate_input text then (Inr (create_error_result text (Some ''Invalid input text'')), w)
      else if \<not> is_available self
      then (Inr (create_error_result text (Some ''Tone changer not available'')), w)
      else
        let (cached_result, cs1) = get_tone_change (cache_service w) text target_tone (clock 0);
            n = (if cached_result = None then 0 else 1);
            w1 = w\<lparr>cache_service := cs1\<rparr>
        in if truthy cached_result
           then (Inr \<lparr>processed_text = the cached_result, original_text = text,
                  processing_time = 0, success = True, error_message = None,
                  metadata = Some [(''from_cache'', MBool True),
                                   (''target_tone'', MStr target_tone)]\<rparr>, w1)
           else
             let start_time = clock n
             in if lower target_tone \<noteq> ''formal''
                then (Inr (create_error_result text (Some (''Unsupported tone: '' @ target_tone))), w1)
                else
                  let prompt = TONE_CHANGE text;
                      gen_config = generation (config self)
                  in case map_of (stop_tokens (config self)) ''tone_change'' of
                       None \<Rightarrow> (Inr (create_error_result text (Some (KeyError_str ''tone_change''))), w1)
                     | Some stops \<Rightarrow>
                         let req = \<lparr>req_prompt = prompt,
                                    req_max_tokens = max (tone_min_tokens gen_config)
                                      (int (length text) * tone_max_tokens_multiplier gen_config),
                                    req_temperature = tone_temperature gen_config,
                                    req_top_p = tone_top_p gen_config,
                                    req_top_k = tone_top_k gen_config,
                                    req_stop_tokens = stops,
                                    req_repeat_penalty = tone_repeat_penalty gen_config\<rparr>;
                             w2 = w1\<lparr>calls := calls w1 @ [req]\<rparr>
                         in (case generate_response (llm_provider self) req of
                              Raised e \<Rightarrow> (Inr (create_error_result text (Some e)), w2)
                            | Failed err \<Rightarrow> (Inr (create_error_result text err), w2)
                            | Interrupted e \<Rightarrow> (Inl (Propagated e), w2)
                            | Generated out \<Rightarrow>
                                let processing_time = clock (n + 1) - start_time;
                                    formal_text = strip out
                                in if formal_text = []
                                      \<or> real (length formal_text) < real (length text) * (3 / 10)
                                   then (Inr (create_error_result text
                                             (Some ''Invalid tone change response'')), w2)
                                   else
                                     (Inr \<lparr>processed_text = formal_text, original_text = text,
                                       processing_time = processing_time, success = True,
                                       error_message = None,
                                       metadata = Some [(''from_cache'', MBool False),
                                                        (''target_tone'', MStr target_tone)]\<rparr>,
                                      w2\<lparr>cache_service :=
                                           cache_tone_change (cache_service w2) text formal_text
                                             target_tone (clock (n + 2)) (clock (n + 3))\<rparr>)))"

text \<open>
  \<open>process_text\<close> of the three classes; \<open>kwargs\<close> is the dictionary of keyword arguments,
  of which only \<open>ToneChanger\<close> reads \<open>target_tone\<close>.
\<close>

definition GrammarCorrector_process_text ::
  "BaseTextProcessor \<Rightarrow> (nat \<Rightarrow> real) \<Rightarrow> world \<Rightarrow> string \<Rightarrow> (string \<times> string) list
     \<Rightarrow> (fault + TextProcessingResult) \<times> world" where
  "GrammarCorrector_process_text self clock w text kwargs = fix_grammar self clock w text"

definition TextSummarizer_process_text ::
  "BaseTextProcessor \<Rightarrow> (nat \<Rightarrow> real) \<Rightarrow> world \<Rightarrow> string \<Rightarrow> (string \<times> string) list
     \<Rightarrow> (fault + TextProcessingResult) \<times> world" where
  "TextSummarizer_process_text self clock w text kwargs = summarize self clock w text"

definition ToneChanger_process_text ::
  "BaseTextProcessor \<Rightarrow> (nat \<Rightarrow> real) \<Rightarrow> world \<Rightarrow> string \<Rightarrow> (string \<times> string) list
     \<Rightarrow> (fault + TextProcessingResult) \<times> world" where
  "ToneChanger_process_text self clock w text kwargs =
     (let target_tone = (case map_of kwargs ''target_tone'' of
                           Some t \<Rightarrow> t | None \<Rightarrow> ''formal'')
      in change_tone self clock w text target_tone)"

section \<open>Notions used to state the properties\<close>

text \<open>The keys that are in the cache \<open>c\<close> and no longer in \<open>c'\<close>.\<close>

definition removed_keys :: "'v LRUCache \<Rightarrow> 'v LRUCache \<Rightarrow> string set" where
  "removed_keys c c' = fst ` set (cache c) - fst ` set (cache c')"

text \<open>A full cache of three entries, the oldest being \<open>b\<close>, then \<open>c\<close>, then \<open>a\<close>.\<close>

definition three_entries :: "string LRUCache" where
  "three_entries =
     \<lparr>max_size = 3, cleanup_batch_size = 2,
      cache = [(''a'', CacheEntry_new ''x'' 5 5), (''b'', CacheEntry_new ''y'' 1 1),
               (''c'', CacheEntry_new ''z'' 3 3)]\<rparr>"

text \<open>What a cache holds under a key, read without touching the entry.\<close>

definition cached_value :: "'v LRUCache \<Rightarrow> string \<Rightarrow> 'v option" where
  "cached_value c key = map_option entry_value (map_of (cache c) key)"

text \<open>The keys of a cache with their values, in order, and those of the three caches.\<close>

definition contents :: "'v LRUCache \<Rightarrow> (string \<times> 'v) list" where
  "contents c = map (\<lambda>item. (fst item, entry_value (snd item))) (cache c)"

definition stored ::
  "CacheService \<Rightarrow>
     (string \<times> string) list \<times> (string \<times> string) list \<times> (string \<times> string) list" where
  "stored cs =
     (contents (grammar_cache cs), contents (summary_cache cs), contents (tone_cache cs))"

text \<open>
  What came out of a call: a result with \<open>success\<close> false; a result with \<open>success\<close>
  true; a successful result with the given \<open>processed_text\<close>; a result whose metadata
  has \<open>from_cache\<close> true.  None of them holds when an exception left the call.
\<close>

definition is_failure :: "fault + TextProcessingResult \<Rightarrow> bool" where
  "is_failure x = (case x of Inl _ \<Rightarrow> False | Inr r \<Rightarrow> \<not> success r)"

definition succeeded :: "fault + TextProcessingResult \<Rightarrow> bool" where
  "succeeded x = (case x of Inl _ \<Rightarrow> False | Inr r \<Rightarrow> success r)"

definition succeeded_with :: "fault + TextProcessingResult \<Rightarrow> string \<Rightarrow> bool" where
  "succeeded_with x v = (case x of Inl _ \<Rightarrow> False | Inr r \<Rightarrow> success r \<and> processed_text r = v)"

definition answered_from_cache :: "fault + TextProcessingResult \<Rightarrow> bool" where
  "answered_from_cache x =
     (case x of
        Inl _ \<Rightarrow> False
      | Inr r \<Rightarrow>
          (case metadata r of
             None \<Rightarrow> False
           | Some m \<Rightarrow> map_of m ''from_cache'' = Some (MBool True)))"

text \<open>
  The outcome \<open>out\<close> of a call on the state \<open>w\<close> is a cache hit: the call returned the
  success that carries the value \<open>v\<close>, no processing time and the metadata \<open>meta\<close>, it
  made no request to the provider and changed no key or value of a cache.
\<close>

definition served_from_cache ::
  "(fault + TextProcessingResult) \<times> world \<Rightarrow> world \<Rightarrow> string \<Rightarrow> string
     \<Rightarrow> (string \<times> meta_value) list \<Rightarrow> bool" where
  "served_from_cache out w text v meta =
     (fst out = Inr \<lparr>processed_text = v, original_text = text, processing_time = 0,
                     success = True, error_message = None, metadata = Some meta\<rparr>
      \<and> calls (snd out) = calls w
      \<and> stored (cache_service (snd out)) = stored (cache_service w))"

text \<open>The call made exactly one request to the provider, after those made before.\<close>

definition invoked_provider :: "(fault + TextProcessingResult) \<times> world \<Rightarrow> world \<Rightarrow> bool" where
  "invoked_provider out w =
     (length (calls (snd out)) = Suc (length (calls w))
      \<and> take (length (calls w)) (calls (snd out)) = calls w)"

text \<open>The call made one request and the provider answered it with \<open>g\<close>.\<close>

definition provider_returned ::
  "BaseTextProcessor \<Rightarrow> (fault + TextProcessingResult) \<times> world \<Rightarrow> world \<Rightarrow> gen_outcome
     \<Rightarrow> bool" where
  "provider_returned self out w g =
     (invoked_provider out w
      \<and> generate_response (llm_provider self) (last (calls (snd out))) = g)"

text \<open>
  The call returned a failed result that keeps the input text in both text fields and
  leaves the keys and values of the caches alone.  Its error message is not empty,
  unless it is what the provider gave: the \<open>error\<close> of its answer, which may be \<open>None\<close>
  or the empty string, or the message of its exception, which may be empty.
\<close>

definition failed_safely ::
  "BaseTextProcessor \<Rightarrow> (fault + TextProcessingResult) \<times> world \<Rightarrow> world \<Rightarrow> string \<Rightarrow> bool" where
  "failed_safely self out w text =
     (case fst out of
        Inl _ \<Rightarrow> False
      | Inr r \<Rightarrow>
          \<not> success r \<and> original_text r = text \<and> processed_text r = text
          \<and> stored (cache_service (snd out)) = stored (cache_service w)
          \<and> (case error_message r of
                None \<Rightarrow> provider_returned self out w (Failed None)
              | Some msg \<Rightarrow>
                  msg \<noteq> [] \<or> provider_returned self out w (Failed (Some msg))
                  \<or> provider_returned self out w (Raised msg)))"

text \<open>
  Every error ends in a failed result: an invalid input, a provider that is not loaded,
  a provider that answers with the error \<open>err\<close>, a provider that raises an \<open>Exception\<close>
  with the message \<open>msg\<close>, a response that the validation rejects (\<open>bad_response\<close>) and
  a tone that is not supported (\<open>unsupported\<close>).  Every failed result is as
  \<open>failed_safely\<close> says.  An exception leaves the call only when the provider raised
  one that is not an \<open>Exception\<close>.
\<close>

definition errors_contained ::
  "BaseTextProcessor \<Rightarrow> (fault + TextProcessingResult) \<times> world \<Rightarrow> world \<Rightarrow> string
     \<Rightarrow> string option \<Rightarrow> string \<Rightarrow> bool \<Rightarrow> bool \<Rightarrow> bool" where
  "errors_contained self out w text err msg bad_response unsupported =
     ((\<not> validate_input text \<longrightarrow> is_failure (fst out))
      \<and> (\<not> is_loaded (llm_provider self) \<longrightarrow> is_failure (fst out))
      \<and> (provider_returned self out w (Failed err) \<longrightarrow>
            fst out = Inr (create_error_result text err))
      \<and> (provider_returned self out w (Raised msg) \<longrightarrow>
            fst out = Inr (create_error_result text (Some msg)))
      \<and> (bad_response \<longrightarrow> is_failure (fst out))
      \<and> (unsupported \<longrightarrow> is_failure (fst out))
      \<and> (is_failure (fst out) \<longrightarrow> failed_safely self out w text)
      \<and> (case fst out of
            Inl (Propagated e) \<Rightarrow> provider_returned self out w (Interrupted e)
          | Inr r \<Rightarrow> True))"

text \<open>The output is shorter than 30 percent of the input.\<close>

definition under_30_percent :: "string \<Rightarrow> string \<Rightarrow> bool" where
  "under_30_percent out text = (real (length out) < real (length text) * (3 / 10))"

text \<open>
  A loaded provider that answers every request with \<open>g\<close>, a processor on it with the
  default configuration, a processor whose provider is not loaded, the state with three
  empty caches, and the state in which
  \<open>v\<close> has been cached for \<open>text\<close> in all three.
\<close>

definition mock_provider :: "gen_outcome \<Rightarrow> ILLMProvider" where
  "mock_provider g = \<lparr>is_loaded = True, generate_response = (\<lambda>req. g)\<rparr>"

definition mock_processor :: "gen_outcome \<Rightarrow> BaseTextProcessor" where
  "mock_processor g = \<lparr>llm_provider = mock_provider g, config = CONFIG\<rparr>"

definition unloaded_processor :: BaseTextProcessor where
  "unloaded_processor =
     \<lparr>llm_provider = \<lparr>is_loaded = False, generate_response = (\<lambda>req. Generated ''Abc.'')\<rparr>,
      config = CONFIG\<rparr>"

definition fresh_world :: world where
  "fresh_world = \<lparr>cache_service = CacheService_init default_CacheConfig, calls = []\<rparr>"

definition primed_world :: "string \<Rightarrow> string \<Rightarrow> string \<Rightarrow> world" where
  "primed_world text tone v =
     \<lparr>cache_service =
        cache_tone_change
          (cache_summary
             (cache_grammar_correction (CacheService_init default_CacheConfig) text v 0 0)
             text v 0 0)
          text v tone 0 0,
      calls = []\<rparr>"

section \<open>Key normalisation\<close>

lemma lower_char_idem: "lower_char (lower_char c) = lower_char c"
  by (auto simp: lower_char_def Let_def)

lemma isspace_lower_char: "isspace (lower_char c) = isspace c"
  by (auto simp: lower_char_def isspace_def Let_def)

lemma dropWhile_isspace_lower:
  "dropWhile isspace (map lower_char s) = map lower_char (dropWhile isspace s)"
  by (induction s) (auto simp: isspace_lower_char)

lemma strip_lower: "strip (lower s) = lower (strip s)"
proof -
  let ?t = "dropWhile isspace s"
  have "dropWhile isspace (rev (map lower_char ?t)) = dropWhile isspace (map lower_char (rev ?t))"
    by (simp only: rev_map)
  also have "\<dots> = map lower_char (dropWhile isspace (rev ?t))"
    by (rule dropWhile_isspace_lower)
  finally show ?thesis
    by (simp only: strip_def lower_def dropWhile_isspace_lower rev_map)
qed

lemma dropWhile_hd_id: "xs \<noteq> [] \<Longrightarrow> \<not> P (hd xs) \<Longrightarrow> dropWhile P xs = xs"
  by (cases xs) auto

text \<open>What \<open>strip\<close> leaves does not start with a character it would drop.\<close>

lemma dropWhile_rev_dropWhile:
  "dropWhile P (rev (dropWhile P (rev (dropWhile P s)))) = rev (dropWhile P (rev (dropWhile P s)))"
proof (cases "dropWhile P (rev (dropWhile P s)) = []")
  case True
  show ?thesis unfolding True by simp
next
  case False
  let ?t = "dropWhile P s"
  let ?u = "dropWhile P (rev ?t)"
  have "rev ?t = takeWhile P (rev ?t) @ ?u" by simp
  then have "last (rev ?t) = last ?u" using False by (metis last_appendR)
  moreover have "?t \<noteq> []" using False by (metis dropWhile.simps(1) rev.simps(1))
  ultimately have "last ?u = hd ?t" by (simp add: last_rev)
  moreover have "\<not> P (hd ?t)" using \<open>?t \<noteq> []\<close> by (rule hd_dropWhile)
  ultimately have "\<not> P (hd (rev ?u))" using False by (simp add: hd_rev)
  moreover have "rev ?u \<noteq> []" using False by (simp only: rev_is_Nil_conv not_False_eq_True)
  ultimately show ?thesis by (rule dropWhile_hd_id[rotated])
qed

lemma strip_idem: "strip (strip s) = strip s"
  by (simp add: strip_def dropWhile_rev_dropWhile)

lemma lower_idem: "lower (lower s) = lower s"
  by (simp add: lower_def lower_char_idem)

lemma length_dropWhile_le: "length (dropWhile P xs) \<le> length xs"
  by (induction xs) auto

lemma length_strip_le: "length (strip s) \<le> length s"
proof -
  let ?t = "dropWhile isspace s"
  have "length (dropWhile isspace (rev ?t)) \<le> length (rev ?t)"
    by (rule length_dropWhile_le)
  moreover have "length ?t \<le> length s"
    by (rule length_dropWhile_le)
  ultimately show ?thesis by (simp add: strip_def)
qed

section \<open>The dictionary of a cache\<close>

lemma foldl_delete_filter:
  "foldl (\<lambda>d item. AList.delete (fst item) d) al vs = filter (\<lambda>p. fst p \<notin> fst ` set vs) al"
proof (induction vs arbitrary: al)
  case Nil
  then show ?case by simp
next
  case (Cons v vs)
  have "AList.delete (fst v) al = filter (\<lambda>p. fst p \<noteq> fst v) al"
    by (induction al) (auto simp: AList.delete_eq)
  then have "foldl (\<lambda>d item. AList.delete (fst item) d) al (v # vs)
      = filter (\<lambda>p. fst p \<notin> fst ` set vs) (filter (\<lambda>p. fst p \<noteq> fst v) al)"
    by (simp add: Cons)
  also have "\<dots> = filter (\<lambda>p. fst p \<notin> fst ` set (v # vs)) al"
    by (simp add: conj_commute)
  finally show ?case .
qed

lemma inj_keys:
  assumes "distinct (map fst al)" "p \<in> set al" "q \<in> set al" "fst p = fst q"
  shows "p = q"
  using assms by (meson distinct_map inj_onD)

lemma distinct_keys_removed:
  assumes "distinct (map fst al)" "set vs \<subseteq> set al"
  shows "{p \<in> set al. fst p \<notin> fst ` set vs} = set al - set vs"
proof (intro set_eqI iffI)
  fix p assume "p \<in> {p \<in> set al. fst p \<notin> fst ` set vs}"
  then show "p \<in> set al - set vs" by blast
next
  fix p assume a: "p \<in> set al - set vs"
  have "fst p \<notin> fst ` set vs"
  proof
    assume "fst p \<in> fst ` set vs"
    then obtain q where q: "q \<in> set vs" "fst p = fst q" by blast
    then have "p = q" using a assms(2) inj_keys[OF assms(1)] by blast
    then show False using a q(1) by simp
  qed
  then show "p \<in> {p \<in> set al. fst p \<notin> fst ` set vs}" using a by simp
qed

lemma length_filter_removed:
  assumes "distinct (map fst al)" "set vs \<subseteq> set al" "distinct vs"
  shows "length (filter (\<lambda>p. fst p \<notin> fst ` set vs) al) = length al - length vs"
proof -
  have d: "distinct al" using assms(1) by (simp add: distinct_map)
  have "length (filter (\<lambda>p. fst p \<notin> fst ` set vs) al) = card {p \<in> set al. fst p \<notin> fst ` set vs}"
    using d by (simp add: distinct_length_filter Int_def conj_commute)
  also have "\<dots> = card (set al - set vs)"
    using assms(1,2) by (simp only: distinct_keys_removed)
  also have "\<dots> = card (set al) - card (set vs)"
    using assms(2) by (simp add: card_Diff_subset)
  finally show ?thesis using d assms(3) by (simp add: distinct_card)
qed

lemma length_update_le: "length (AList.update k v al) \<le> Suc (length al)"
  by (induction al) auto

section \<open>Cleanup\<close>

lemma cleanup_skip: "int (length (cache c)) < cleanup_batch_size c \<Longrightarrow> cleanup c = c"
  by (simp add: cleanup_def)

lemma cleanup_run:
  assumes "cleanup_batch_size c \<le> int (length (cache c))" "0 \<le> cleanup_batch_size c"
  shows "cache (cleanup c) =
     filter (\<lambda>p. fst p \<notin> fst ` set (take (nat (cleanup_batch_size c))
        (sort_key (\<lambda>item. last_accessed (snd item)) (cache c)))) (cache c)"
  using assms by (simp add: cleanup_def slice_upto_def foldl_delete_filter Let_def)

lemma length_cleanup:
  assumes "distinct (map fst (cache c))"
    "cleanup_batch_size c \<le> int (length (cache c))" "0 \<le> cleanup_batch_size c"
  shows "int (length (cache (cleanup c))) = int (length (cache c)) - cleanup_batch_size c"
proof -
  let ?srt = "sort_key (\<lambda>item. last_accessed (snd item)) (cache c)"
  let ?vs = "take (nat (cleanup_batch_size c)) ?srt"
  have d: "distinct (cache c)" using assms(1) by (simp add: distinct_map)
  have s: "set ?vs \<subseteq> set (cache c)"
    using set_take_subset[of "nat (cleanup_batch_size c)" ?srt] by simp
  have dv: "distinct ?vs" using d by simp
  have l: "length ?vs = nat (cleanup_batch_size c)" using assms(2,3) by simp
  have "length (cache (cleanup c)) = length (cache c) - length ?vs"
    using assms(1) s dv by (simp only: cleanup_run[OF assms(2,3)] length_filter_removed)
  then show ?thesis using l assms(2,3) by simp
qed

lemma distinct_cleanup:
  "distinct (map fst (cache c)) \<Longrightarrow> distinct (map fst (cache (cleanup c)))"
  by (simp add: cleanup_def foldl_delete_filter Let_def distinct_map_filter)

lemma removed_keys_cleanup:
  assumes "cleanup_batch_size c \<le> int (length (cache c))" "0 \<le> cleanup_batch_size c"
  shows "removed_keys c (cleanup c) =
     fst ` set (take (nat (cleanup_batch_size c))
        (sort_key (\<lambda>item. last_accessed (snd item)) (cache c)))"
proof -
  let ?srt = "sort_key (\<lambda>item. last_accessed (snd item)) (cache c)"
  let ?vs = "take (nat (cleanup_batch_size c)) ?srt"
  have s: "set ?vs \<subseteq> set (cache c)"
    using set_take_subset[of "nat (cleanup_batch_size c)" ?srt] by simp
  have "fst ` set (cache (cleanup c)) = fst ` set (cache c) - fst ` set ?vs"
    by (auto simp: cleanup_run[OF assms])
  then show ?thesis using s unfolding removed_keys_def by blast
qed

section \<open>The bound on the size of a cache\<close>

lemma distinct_put:
  "distinct (map fst (cache c)) \<Longrightarrow> distinct (map fst (cache (put c k v tc ta)))"
  by (simp add: put_def Let_def distinct_cleanup AList.distinct_update)

lemma max_size_put [simp]: "max_size (put c k v tc ta) = max_size c"
  by (simp add: put_def Let_def cleanup_def)

lemma batch_put [simp]: "cleanup_batch_size (put c k v tc ta) = cleanup_batch_size c"
  by (simp add: put_def Let_def cleanup_def)

text \<open>
  One \<open>put\<close> keeps the number of entries below the larger of \<open>max_size\<close> and
  \<open>cleanup_batch_size\<close>, when a cleanup removes at least one entry.
\<close>

lemma put_bound:
  assumes "distinct (map fst (cache c))" "1 \<le> cleanup_batch_size c"
    "int (length (cache c)) \<le> max (max_size c) (cleanup_batch_size c)"
  shows "int (length (cache (put c k v tc ta))) \<le> max (max_size c) (cleanup_batch_size c)"
proof (cases "max_size c \<le> int (length (cache c))")
  case False
  have "length (cache (put c k v tc ta)) \<le> Suc (length (cache c))"
    using False by (simp add: put_def length_update_le)
  then show ?thesis using False by linarith
next
  case True
  have p: "length (cache (put c k v tc ta)) \<le> Suc (length (cache (cleanup c)))"
    using True by (simp add: put_def Let_def length_update_le)
  show ?thesis
  proof (cases "int (length (cache c)) < cleanup_batch_size c")
    case True
    then have "cleanup c = c" by (rule cleanup_skip)
    then show ?thesis using p True by simp
  next
    case False
    then have "int (length (cache (cleanup c))) = int (length (cache c)) - cleanup_batch_size c"
      using assms(1,2) by (intro length_cleanup) auto
    then show ?thesis using p assms(2,3) by linarith
  qed
qed

lemma put_all_bound:
  assumes "distinct (map fst (cache c))" "1 \<le> cleanup_batch_size c"
    "int (length (cache c)) \<le> max (max_size c) (cleanup_batch_size c)"
  shows "int (length (cache (put_all c ps))) \<le> max (max_size c) (cleanup_batch_size c)"
  using assms
proof (induction c ps rule: put_all.induct)
  case (1 c)
  then show ?case by simp
next
  case (2 c k v tc ta ps)
  have "int (length (cache (put_all (put c k v tc ta) ps)))
      \<le> max (max_size (put c k v tc ta)) (cleanup_batch_size (put c k v tc ta))"
    using 2(2,3,4) by (intro 2(1) distinct_put) (simp_all add: put_bound)
  then show ?case by simp
qed

lemma put_all_init_bound:
  "1 \<le> b \<Longrightarrow> int (length (cache (put_all (LRUCache_init m b) ps))) \<le> max m b"
  using put_all_bound[of "LRUCache_init m b" ps] by (simp add: LRUCache_init_def)

text \<open>
  C1, as amended.  For a cache constructed with
  \<open>1 \<le> cleanup_batch_size \<le> max_size\<close>, after every sequence of \<open>put\<close> calls from the
  empty cache \<open>size()\<close> is at most \<open>max_size\<close>.  For one constructed with
  \<open>max_size < cleanup_batch_size\<close> (and \<open>1 \<le> cleanup_batch_size\<close>) the size may pass
  \<open>max_size\<close> but never \<open>cleanup_batch_size\<close>: the \<open>put\<close> that finds
  \<open>cleanup_batch_size\<close> entries runs the cleanup.
\<close>

theorem cache_bound:
  assumes "1 \<le> b"
  shows "(b \<le> m \<longrightarrow> int (cache_size (put_all (LRUCache_init m b) ps)) \<le> m)
       \<and> (m < b \<longrightarrow> int (cache_size (put_all (LRUCache_init m b) ps)) \<le> b)"
  using put_all_init_bound[OF assms, of m ps] by (auto simp: cache_size_def)

theorem cache_bound_witness:
  "(1::int) \<le> 1 \<and> (1::int) \<le> 2
   \<and> int (cache_size (put_all (LRUCache_init 2 1)
         [(''a'', ''x'', 0, 0), (''b'', ''y'', 1, 1), (''c'', ''z'', 2, 2)])) \<le> 2
   \<and> (1::int) \<le> 3 \<and> (1::int) < 3
   \<and> int (cache_size (put_all (LRUCache_init 1 3)
         [(''a'', ''x'', 0, 0), (''b'', ''y'', 1, 1), (''c'', ''z'', 2, 2)])) \<le> 3"
  using cache_bound[of 1 2 "[(''a'', ''x'', 0, 0), (''b'', ''y'', 1, 1), (''c'', ''z'', 2, 2)]"]
        cache_bound[of 3 1 "[(''a'', ''x'', 0, 0), (''b'', ''y'', 1, 1), (''c'', ''z'', 2, 2)]"]
  by simp

text \<open>
  With \<open>max_size = 1 < cleanup_batch_size = 3\<close> the cache grows to three entries, and the
  fourth \<open>put\<close> evicts them.
\<close>

lemma small_max_size_exceeded:
  "cache_size (put_all (LRUCache_init 1 3)
         [(''a'', ''x'', 0, 0), (''b'', ''y'', 1, 1), (''c'', ''z'', 2, 2)]) = 3
   \<and> cache (put_all (LRUCache_init 1 3)
         [(''a'', ''x'', 0, 0), (''b'', ''y'', 1, 1), (''c'', ''z'', 2, 2), (''d'', ''z'', 3, 3)])
       = [(''d'', CacheEntry_new ''z'' 3 3)]"
  by (simp add: put_def cleanup_def LRUCache_init_def cache_size_def CacheEntry_new_def
        slice_upto_def AList.delete_eq)

text \<open>
  C1 as stated fails for \<open>cleanup_batch_size = 0\<close>: with \<open>max_size = 1\<close> the cleanup of
  the second \<open>put\<close> deletes \<open>sorted_entries[:0]\<close>, nothing, and the cache holds two entries.
\<close>

theorem cache_bound_counterexample:
  "cleanup_batch_size (LRUCache_init 1 0 :: string LRUCache)
     \<le> max_size (LRUCache_init 1 0 :: string LRUCache)
   \<and> \<not> int (cache_size (put (put (LRUCache_init 1 0) ''a'' ''x'' 0 0) ''b'' ''y'' 1 1))
        \<le> max_size (LRUCache_init 1 0 :: string LRUCache)"
  by (simp add: put_def cleanup_def LRUCache_init_def cache_size_def CacheEntry_new_def
        slice_upto_def)

section \<open>Eviction\<close>

text \<open>
  C2.  When a \<open>put\<close> finds the cache at capacity and the cache holds at least
  \<open>cleanup_batch_size\<close> entries (a number of entries, so not negative), the cleanup it
  runs removes exactly \<open>cleanup_batch_size\<close> keys, every removed entry was accessed no
  later than every entry that stays, and the entries that stay are untouched and in
  their order.
\<close>

theorem cleanup_evicts_least_recent:
  assumes "distinct (map fst (cache c))"
    and "max_size c \<le> int (length (cache c))"
    and "0 \<le> cleanup_batch_size c"
    and "cleanup_batch_size c \<le> int (length (cache c))"
  shows "put c k v tc ta =
           (cleanup c)\<lparr>cache := AList.update k (CacheEntry_new v tc ta) (cache (cleanup c))\<rparr>
       \<and> int (card (removed_keys c (cleanup c))) = cleanup_batch_size c
       \<and> (\<forall>p \<in> set (cache c). \<forall>q \<in> set (cache c).
             fst p \<in> removed_keys c (cleanup c) \<and> fst q \<notin> removed_keys c (cleanup c)
             \<longrightarrow> last_accessed (snd p) \<le> last_accessed (snd q))
       \<and> cache (cleanup c) = filter (\<lambda>p. fst p \<notin> removed_keys c (cleanup c)) (cache c)"
proof -
  let ?f = "\<lambda>item :: string \<times> 'a CacheEntry. last_accessed (snd item)"
  let ?srt = "sort_key ?f (cache c)"
  let ?n = "nat (cleanup_batch_size c)"
  let ?vs = "take ?n ?srt"
  have rk: "removed_keys c (cleanup c) = fst ` set ?vs"
    using assms(4,3) by (rule removed_keys_cleanup)
  have sub: "set ?vs \<subseteq> set (cache c)"
    using set_take_subset[of ?n ?srt] by simp
  have "put c k v tc ta =
           (cleanup c)\<lparr>cache := AList.update k (CacheEntry_new v tc ta) (cache (cleanup c))\<rparr>"
    using assms(2) by (simp add: put_def Let_def)
  moreover have "int (card (removed_keys c (cleanup c))) = cleanup_batch_size c"
  proof -
    have "inj_on fst (set (cache c))" using assms(1) by (simp add: distinct_map)
    then have "inj_on fst (set ?vs)" using sub by (rule inj_on_subset)
    then have "card (fst ` set ?vs) = card (set ?vs)" by (rule card_image)
    also have "\<dots> = length ?vs"
      using assms(1) by (intro distinct_card) (simp add: distinct_map)
    also have "\<dots> = ?n" using assms(4) by simp
    finally show ?thesis using assms(3) by (simp add: rk)
  qed
  moreover have "\<forall>p \<in> set (cache c). \<forall>q \<in> set (cache c).
             fst p \<in> removed_keys c (cleanup c) \<and> fst q \<notin> removed_keys c (cleanup c)
             \<longrightarrow> last_accessed (snd p) \<le> last_accessed (snd q)"
  proof (intro ballI impI)
    fix p q
    assume p: "p \<in> set (cache c)" and q: "q \<in> set (cache c)"
      and pq: "fst p \<in> removed_keys c (cleanup c) \<and> fst q \<notin> removed_keys c (cleanup c)"
    from pq obtain p' where p': "p' \<in> set ?vs" "fst p = fst p'" unfolding rk by blast
    then have "p = p'" using inj_keys[OF assms(1) p] sub by blast
    then have pin: "p \<in> set ?vs" using p' by simp
    have "q \<notin> set ?vs" using pq unfolding rk by blast
    moreover have "q \<in> set (take ?n ?srt @ drop ?n ?srt)" using q by simp
    ultimately have qin: "q \<in> set (drop ?n ?srt)" by (simp only: set_append Un_iff) blast
    have "sorted (map ?f (take ?n ?srt @ drop ?n ?srt))" by simp
    then have "\<forall>x \<in> set (map ?f (take ?n ?srt)). \<forall>y \<in> set (map ?f (drop ?n ?srt)). x \<le> y"
      unfolding map_append sorted_append by blast
    then show "last_accessed (snd p) \<le> last_accessed (snd q)"
      using pin qin by simp
  qed
  moreover have "cache (cleanup c) = filter (\<lambda>p. fst p \<notin> removed_keys c (cleanup c)) (cache c)"
    unfolding rk using assms(4,3) by (rule cleanup_run)
  ultimately show ?thesis by blast
qed

lemma three_entries_cleanup: "cache (cleanup three_entries) = [(''a'', CacheEntry_new ''x'' 5 5)]"
  by (simp add: three_entries_def cleanup_def slice_upto_def CacheEntry_new_def AList.delete_eq)

theorem cleanup_evicts_least_recent_witness:
  "distinct (map fst (cache three_entries))
   \<and> max_size three_entries \<le> int (length (cache three_entries))
   \<and> 0 \<le> cleanup_batch_size three_entries
   \<and> cleanup_batch_size three_entries \<le> int (length (cache three_entries))
   \<and> removed_keys three_entries (cleanup three_entries) = {''b'', ''c''}
   \<and> int (card (removed_keys three_entries (cleanup three_entries))) = 2
   \<and> cache (put three_entries ''d'' ''w'' 7 7)
       = [(''a'', CacheEntry_new ''x'' 5 5), (''d'', CacheEntry_new ''w'' 7 7)]"
proof -
  have h: "distinct (map fst (cache three_entries))"
    "max_size three_entries \<le> int (length (cache three_entries))"
    "0 \<le> cleanup_batch_size three_entries"
    "cleanup_batch_size three_entries \<le> int (length (cache three_entries))"
    by (simp_all add: three_entries_def)
  have r: "removed_keys three_entries (cleanup three_entries) = {''b'', ''c''}"
    by (auto simp: removed_keys_def three_entries_cleanup) (auto simp: three_entries_def)
  show ?thesis
    using h r cleanup_evicts_least_recent[OF h, of "''d''" "''w''" 7 7]
    by (simp add: three_entries_cleanup)
qed

section \<open>Reading the cache\<close>

text \<open>
  C8.  Normalising a key twice is normalising it once, and a \<open>get\<close> of the normalised
  key right after a \<open>put\<close> of it returns the value put.
\<close>

theorem normalize_idempotent_get_after_put:
  "normalize_key (normalize_key s) = normalize_key s
   \<and> fst (get (put c (normalize_key s) v tc ta) (normalize_key s) now) = Some v"
proof -
  have "lower (strip (lower (strip s))) = lower (strip s)"
    by (simp add: strip_lower strip_idem lower_idem)
  moreover have "map_of (cache (put c k v tc ta)) k = Some (CacheEntry_new v tc ta)" for k
    by (simp add: put_def Let_def AList.update_conv')
  ultimately show ?thesis
    by (simp add: normalize_key_def get_def access_def CacheEntry_new_def)
qed

text \<open>
  C9.  A \<open>get\<close> of a key that is not in the cache returns nothing and leaves the cache as
  it is.  A \<open>get\<close> of a key that is returns the stored value; the keys and their order,
  \<open>max_size\<close> and \<open>cleanup_batch_size\<close> stay, the entry of the key has its
  \<open>access_count\<close> one higher and its \<open>last_accessed\<close> set to the clock reading, with the
  value and \<open>created_at\<close> it had, and every other key has the entry it had.
\<close>

theorem get_frame:
  "(map_of (cache c) key = None \<longrightarrow> get c key now = (None, c))
   \<and> (\<forall>e. map_of (cache c) key = Some e \<longrightarrow>
        fst (get c key now) = Some (entry_value e)
        \<and> max_size (snd (get c key now)) = max_size c
        \<and> cleanup_batch_size (snd (get c key now)) = cleanup_batch_size c
        \<and> map fst (cache (snd (get c key now))) = map fst (cache c)
        \<and> map_of (cache (snd (get c key now))) key
            = Some (e\<lparr>access_count := access_count e + 1, last_accessed := now\<rparr>)
        \<and> (\<forall>k'. k' \<noteq> key \<longrightarrow> map_of (cache (snd (get c key now))) k' = map_of (cache c) k'))"
proof -
  have "key \<in> set (map fst (cache c))" if "map_of (cache c) key = Some e" for e
    using that by (metis map_of_eq_None_iff option.distinct(1) set_map)
  then show ?thesis
    by (auto simp: get_def access_def Let_def AList.update_conv' AList.update_keys)
qed

theorem get_frame_witness:
  "map_of (cache three_entries) ''q'' = None
   \<and> get three_entries ''q'' 9 = (None, three_entries)
   \<and> map_of (cache three_entries) ''b'' = Some (CacheEntry_new ''y'' 1 1)
   \<and> fst (get three_entries ''b'' 9) = Some ''y''
   \<and> map fst (cache (snd (get three_entries ''b'' 9))) = [''a'', ''b'', ''c'']
   \<and> map_of (cache (snd (get three_entries ''b'' 9))) ''b''
       = Some \<lparr>entry_value = ''y'', created_at = 1, access_count = 1, last_accessed = 9\<rparr>
   \<and> map_of (cache (snd (get three_entries ''b'' 9))) ''c'' = Some (CacheEntry_new ''z'' 3 3)"
  using get_frame[of three_entries "''q''" 9] get_frame[of three_entries "''b''" 9]
  by (simp add: three_entries_def CacheEntry_new_def)

section \<open>Lookups of the cache service\<close>

lemma fst_get: "fst (get c key now) = cached_value c key"
  by (simp add: get_def cached_value_def access_def Let_def split: option.splits)

lemma update_same_value:
  "map_of al key = Some e \<Longrightarrow> entry_value e' = entry_value e \<Longrightarrow>
   map (\<lambda>item. (fst item, entry_value (snd item))) (AList.update key e' al)
     = map (\<lambda>item. (fst item, entry_value (snd item))) al"
  by (induction al) (auto split: if_splits)

lemma contents_get: "contents (snd (get c key now)) = contents c"
  by (simp add: get_def contents_def access_def Let_def update_same_value split: option.splits)

lemma get_grammar_correction_fst:
  "fst (get_grammar_correction cs text now)
     = cached_value (grammar_cache cs) (normalize_key text)"
  by (simp add: get_grammar_correction_def Let_def split_beta fst_get)

lemma get_grammar_correction_stored:
  "stored (snd (get_grammar_correction cs text now)) = stored cs"
  by (simp add: get_grammar_correction_def Let_def split_beta stored_def contents_get)

lemma get_summary_fst:
  "fst (get_summary cs text now) = cached_value (summary_cache cs) (normalize_key text)"
  by (simp add: get_summary_def Let_def split_beta fst_get)

lemma get_summary_stored:
  "stored (snd (get_summary cs text now)) = stored cs"
  by (simp add: get_summary_def Let_def split_beta stored_def contents_get)

lemma get_tone_change_fst:
  "fst (get_tone_change cs text tone now) = cached_value (tone_cache cs) (tone_key text tone)"
  by (simp add: get_tone_change_def Let_def split_beta fst_get)

lemma get_tone_change_stored:
  "stored (snd (get_tone_change cs text tone now)) = stored cs"
  by (simp add: get_tone_change_def Let_def split_beta stored_def contents_get)

lemma truthy_Some [simp]: "truthy (Some v) = (v \<noteq> [])"
  by (simp add: truthy_def)

lemma truthy_None [simp]: "truthy None = False"
  by (simp add: truthy_def)

lemma strip_Nil [simp]: "strip [] = []"
  by (simp add: strip_def)

lemmas proc_simps = split_beta Let_def create_error_result_def is_available_def
  get_grammar_correction_fst get_grammar_correction_stored
  get_summary_fst get_summary_stored get_tone_change_fst get_tone_change_stored

section \<open>The example processors and states\<close>

lemmas world_defs = primed_world_def fresh_world_def cache_tone_change_def cache_summary_def
  cache_grammar_correction_def CacheService_init_def LRUCache_init_def default_CacheConfig_def
  put_def CacheEntry_new_def tone_key_def mock_processor_def mock_provider_def
  unloaded_processor_def CONFIG_def default_GenerationConfig_def

lemmas run_defs = validate_input_def is_available_def get_grammar_correction_def get_summary_def
  get_tone_change_def get_def access_def strip_def isspace_def create_error_result_def Let_def
  split_beta truthy_def

lemma validate_abc: "validate_input ''abc''"
  by (simp add: validate_input_def strip_def isspace_def)

lemma validate_ten: "validate_input ''abcdefghij''"
  by (simp add: validate_input_def strip_def isspace_def)

lemma validate_blank: "\<not> validate_input '' ''"
  by (simp add: validate_input_def strip_def isspace_def)

lemma normalize_abc: "normalize_key ''abc'' = ''abc''"
  by code_simp

lemma lower_formal: "lower ''formal'' = ''formal''"
  by code_simp

lemma lower_FORMAL: "lower ''FORMAL'' = ''formal''"
  by code_simp

lemma lower_casual: "lower ''casual'' = ''casual''"
  by code_simp

lemma primed_grammar:
  "cached_value (grammar_cache (cache_service (primed_world ''abc'' tone v))) ''abc'' = Some v"
  by (simp add: world_defs cached_value_def normalize_abc)

lemma primed_summary:
  "cached_value (summary_cache (cache_service (primed_world ''abc'' tone v))) ''abc'' = Some v"
  by (simp add: world_defs cached_value_def normalize_abc)

lemma primed_tone:
  "cached_value (tone_cache (cache_service (primed_world ''abc'' tone v)))
     (tone_key ''abc'' tone) = Some v"
  by (simp add: world_defs cached_value_def normalize_abc)

lemma fresh_miss:
  "cached_value (grammar_cache (cache_service fresh_world)) k = None"
  "cached_value (summary_cache (cache_service fresh_world)) k = None"
  "cached_value (tone_cache (cache_service fresh_world)) k = None"
  by (simp_all add: fresh_world_def CacheService_init_def LRUCache_init_def cached_value_def)

lemma mock_loaded: "is_loaded (llm_provider (mock_processor g))"
  by (simp add: mock_processor_def mock_provider_def)

lemma unloaded_not_loaded: "\<not> is_loaded (llm_provider unloaded_processor)"
  by (simp add: unloaded_processor_def)

lemma mock_config: "config (mock_processor g) = CONFIG"
  by (simp add: mock_processor_def)

lemma mock_generate: "generate_response (llm_provider (mock_processor g)) req = g"
  by (simp add: mock_processor_def mock_provider_def)

lemma CONFIG_stops:
  "map_of (stop_tokens CONFIG) ''default'' \<noteq> None"
  "map_of (stop_tokens CONFIG) ''summarize'' \<noteq> None"
  "map_of (stop_tokens CONFIG) ''tone_change'' \<noteq> None"
  by (simp_all add: CONFIG_def)

lemma mock_stops:
  "map_of (stop_tokens (config (mock_processor g))) ''default'' \<noteq> None"
  "map_of (stop_tokens (config (mock_processor g))) ''summarize'' \<noteq> None"
  "map_of (stop_tokens (config (mock_processor g))) ''tone_change'' \<noteq> None"
  by (simp_all add: mock_config CONFIG_stops)

section \<open>When the provider is called\<close>

lemma fix_grammar_invoked:
  assumes "map_of (stop_tokens (config self)) ''default'' \<noteq> None"
  shows "invoked_provider (fix_grammar self clock w text) w
           = (validate_input text \<and> is_loaded (llm_provider self)
              \<and> \<not> truthy (cached_value (grammar_cache (cache_service w)) (normalize_key text)))"
  using assms
  by (auto simp: fix_grammar_def proc_simps invoked_provider_def
        split: gen_outcome.splits if_splits)

lemma summarize_invoked:
  assumes "map_of (stop_tokens (config self)) ''summarize'' \<noteq> None"
  shows "invoked_provider (summarize self clock w text) w
           = (validate_input text \<and> is_loaded (llm_provider self)
              \<and> \<not> truthy (cached_value (summary_cache (cache_service w)) (normalize_key text)))"
  using assms
  by (auto simp: summarize_def proc_simps invoked_provider_def
        split: gen_outcome.splits if_splits)

lemma change_tone_invoked:
  assumes "map_of (stop_tokens (config self)) ''tone_change'' \<noteq> None"
  shows "invoked_provider (change_tone self clock w text target_tone) w
           = (validate_input text \<and> is_loaded (llm_provider self)
              \<and> \<not> truthy (cached_value (tone_cache (cache_service w))
                     (tone_key text target_tone))
              \<and> lower target_tone = ''formal'')"
  using assms
  by (auto simp: change_tone_def proc_simps invoked_provider_def
        split: gen_outcome.splits if_splits)

lemma mock_invoked:
  "validate_input t \<Longrightarrow>
   invoked_provider (fix_grammar (mock_processor g) clock fresh_world t) fresh_world"
  "validate_input t \<Longrightarrow>
   invoked_provider (summarize (mock_processor g) clock fresh_world t) fresh_world"
  "validate_input t \<Longrightarrow>
   invoked_provider (change_tone (mock_processor g) clock fresh_world t ''formal'') fresh_world"
  by (simp_all add: fix_grammar_invoked summarize_invoked change_tone_invoked mock_stops
        mock_loaded fresh_miss lower_formal)

lemma mock_returned:
  "validate_input t \<Longrightarrow>
   provider_returned (mock_processor g) (fix_grammar (mock_processor g) clock fresh_world t)
     fresh_world g"
  "validate_input t \<Longrightarrow>
   provider_returned (mock_processor g) (summarize (mock_processor g) clock fresh_world t)
     fresh_world g"
  "validate_input t \<Longrightarrow>
   provider_returned (mock_processor g)
     (change_tone (mock_processor g) clock fresh_world t ''formal'') fresh_world g"
  by (simp_all add: provider_returned_def mock_invoked mock_generate)

section \<open>Cache hits\<close>

lemma fix_grammar_hit:
  assumes "validate_input text" "is_available self" "v \<noteq> []"
    "cached_value (grammar_cache (cache_service w)) (normalize_key text) = Some v"
  shows "served_from_cache (fix_grammar self clock w text) w text v [(''from_cache'', MBool True)]"
  using assms by (simp add: fix_grammar_def proc_simps served_from_cache_def)

lemma summarize_hit:
  assumes "validate_input text" "is_available self" "v \<noteq> []"
    "cached_value (summary_cache (cache_service w)) (normalize_key text) = Some v"
  shows "served_from_cache (summarize self clock w text) w text v [(''from_cache'', MBool True)]"
  using assms by (simp add: summarize_def proc_simps served_from_cache_def)

lemma change_tone_hit:
  assumes "validate_input text" "is_available self" "v \<noteq> []"
    "cached_value (tone_cache (cache_service w)) (tone_key text target_tone) = Some v"
  shows "served_from_cache (change_tone self clock w text target_tone) w text v
           [(''from_cache'', MBool True), (''target_tone'', MStr target_tone)]"
  using assms by (simp add: change_tone_def proc_simps served_from_cache_def)

text \<open>
  C3, as amended.  For each of the three processors: if the input text is valid (not
  empty, not only whitespace), the provider is loaded and the cache holds a value that
  is not the empty string under the key of the input (the normalised text; for a tone
  change the normalised text, an underscore and the target tone), the call returns a
  success whose \<open>processed_text\<close> is the cached value, with \<open>processing_time\<close> 0 and
  \<open>from_cache\<close> true in the metadata, and makes no request to the provider.
\<close>

theorem cache_hit_short_circuit:
  assumes "validate_input text" and "is_loaded (llm_provider self)" and "v \<noteq> []"
  shows "(cached_value (grammar_cache (cache_service w)) (normalize_key text) = Some v \<longrightarrow>
            served_from_cache (fix_grammar self clock w text) w text v
              [(''from_cache'', MBool True)])
       \<and> (cached_value (summary_cache (cache_service w)) (normalize_key text) = Some v \<longrightarrow>
            served_from_cache (summarize self clock w text) w text v
              [(''from_cache'', MBool True)])
       \<and> (cached_value (tone_cache (cache_service w)) (tone_key text target_tone) = Some v \<longrightarrow>
            served_from_cache (change_tone self clock w text target_tone) w text v
              [(''from_cache'', MBool True), (''target_tone'', MStr target_tone)])"
  using assms by (simp add: is_available_def fix_grammar_hit summarize_hit change_tone_hit)

theorem cache_hit_short_circuit_witness:
  "validate_input ''abc'' \<and> is_loaded (llm_provider (mock_processor (Raised ''unused'')))
   \<and> ''Abc.'' \<noteq> []
   \<and> cached_value (grammar_cache (cache_service (primed_world ''abc'' ''formal'' ''Abc.'')))
        (normalize_key ''abc'') = Some ''Abc.''
   \<and> cached_value (summary_cache (cache_service (primed_world ''abc'' ''formal'' ''Abc.'')))
        (normalize_key ''abc'') = Some ''Abc.''
   \<and> cached_value (tone_cache (cache_service (primed_world ''abc'' ''formal'' ''Abc.'')))
        (tone_key ''abc'' ''formal'') = Some ''Abc.''
   \<and> served_from_cache
        (fix_grammar (mock_processor (Raised ''unused'')) real
           (primed_world ''abc'' ''formal'' ''Abc.'') ''abc'')
        (primed_world ''abc'' ''formal'' ''Abc.'') ''abc'' ''Abc.'' [(''from_cache'', MBool True)]
   \<and> served_from_cache
        (summarize (mock_processor (Raised ''unused'')) real
           (primed_world ''abc'' ''formal'' ''Abc.'') ''abc'')
        (primed_world ''abc'' ''formal'' ''Abc.'') ''abc'' ''Abc.'' [(''from_cache'', MBool True)]
   \<and> served_from_cache
        (change_tone (mock_processor (Raised ''unused'')) real
           (primed_world ''abc'' ''formal'' ''Abc.'') ''abc'' ''formal'')
        (primed_world ''abc'' ''formal'' ''Abc.'') ''abc'' ''Abc.''
        [(''from_cache'', MBool True), (''target_tone'', MStr ''formal'')]"
  using cache_hit_short_circuit[OF validate_abc mock_loaded[of "Raised ''unused''"],
          where v = "''Abc.''" and w = "primed_world ''abc'' ''formal'' ''Abc.''"
            and clock = real and target_tone = "''formal''"]
  by (simp add: validate_abc mock_loaded normalize_abc primed_grammar primed_summary primed_tone)

text \<open>
  C3 as stated fails when the cached value is the empty string: the provider is loaded,
  the grammar cache holds the empty string under the key of \<open>abc\<close>, and
  \<open>fix_grammar\<close> makes a request to the provider and returns the provider's text, in a
  result that is not from the cache.
\<close>

theorem cache_hit_short_circuit_counterexample:
  "is_loaded (llm_provider (mock_processor (Generated ''Abc.'')))
   \<and> cached_value (grammar_cache (cache_service (primed_world ''abc'' ''formal'' '''')))
        (normalize_key ''abc'') = Some ''''
   \<and> calls (primed_world ''abc'' ''formal'' '''') = []
   \<and> length (calls (snd (fix_grammar (mock_processor (Generated ''Abc.'')) real
        (primed_world ''abc'' ''formal'' '''') ''abc''))) = 1
   \<and> succeeded_with (fst (fix_grammar (mock_processor (Generated ''Abc.'')) real
        (primed_world ''abc'' ''formal'' '''') ''abc'')) ''Abc.''
   \<and> \<not> answered_from_cache (fst (fix_grammar (mock_processor (Generated ''Abc.'')) real
        (primed_world ''abc'' ''formal'' '''') ''abc''))"
  by (simp add: fix_grammar_def world_defs run_defs normalize_abc cached_value_def
        succeeded_with_def answered_from_cache_def)

section \<open>The empty string in the cache\<close>

lemma fix_grammar_from_cache:
  "answered_from_cache (fst (fix_grammar self clock w text)) \<Longrightarrow>
   truthy (cached_value (grammar_cache (cache_service w)) (normalize_key text))"
  by (auto simp: fix_grammar_def proc_simps answered_from_cache_def
        split: option.splits gen_outcome.splits if_splits)

lemma summarize_from_cache:
  "answered_from_cache (fst (summarize self clock w text)) \<Longrightarrow>
   truthy (cached_value (summary_cache (cache_service w)) (normalize_key text))"
  by (auto simp: summarize_def proc_simps answered_from_cache_def
        split: option.splits gen_outcome.splits if_splits)

lemma change_tone_from_cache:
  "answered_from_cache (fst (change_tone self clock w text target_tone)) \<Longrightarrow>
   truthy (cached_value (tone_cache (cache_service w)) (tone_key text target_tone))"
  by (auto simp: change_tone_def proc_simps answered_from_cache_def
        split: option.splits gen_outcome.splits if_splits)

text \<open>
  C10, as amended.  For each of the three processors, if the cache holds the empty
  string under the key of the input, the call never answers from the cache; and when
  the input is valid and the provider is loaded (for a tone change: and the target tone
  is supported), the call makes its request to the provider, as on a miss.  The
  configuration is one that has the stop tokens of the operation, as the default one
  has.
\<close>

theorem empty_cached_value_is_miss:
  "(cached_value (grammar_cache (cache_service w)) (normalize_key text) = Some [] \<longrightarrow>
      \<not> answered_from_cache (fst (fix_grammar self clock w text))
      \<and> (validate_input text \<and> is_loaded (llm_provider self)
           \<and> map_of (stop_tokens (config self)) ''default'' \<noteq> None \<longrightarrow>
         invoked_provider (fix_grammar self clock w text) w))
   \<and> (cached_value (summary_cache (cache_service w)) (normalize_key text) = Some [] \<longrightarrow>
      \<not> answered_from_cache (fst (summarize self clock w text))
      \<and> (validate_input text \<and> is_loaded (llm_provider self)
           \<and> map_of (stop_tokens (config self)) ''summarize'' \<noteq> None \<longrightarrow>
         invoked_provider (summarize self clock w text) w))
   \<and> (cached_value (tone_cache (cache_service w)) (tone_key text target_tone) = Some [] \<longrightarrow>
      \<not> answered_from_cache (fst (change_tone self clock w text target_tone))
      \<and> (validate_input text \<and> is_loaded (llm_provider self)
           \<and> map_of (stop_tokens (config self)) ''tone_change'' \<noteq> None
           \<and> lower target_tone = ''formal'' \<longrightarrow>
         invoked_provider (change_tone self clock w text target_tone) w))"
proof (intro conjI impI)
  assume a: "cached_value (grammar_cache (cache_service w)) (normalize_key text) = Some []"
  show "\<not> answered_from_cache (fst (fix_grammar self clock w text))"
    using a fix_grammar_from_cache[of self clock w "text"] by auto
  show "invoked_provider (fix_grammar self clock w text) w"
    if "validate_input text \<and> is_loaded (llm_provider self)
           \<and> map_of (stop_tokens (config self)) ''default'' \<noteq> None"
    using a that by (simp add: fix_grammar_invoked)
next
  assume a: "cached_value (summary_cache (cache_service w)) (normalize_key text) = Some []"
  show "\<not> answered_from_cache (fst (summarize self clock w text))"
    using a summarize_from_cache[of self clock w "text"] by auto
  show "invoked_provider (summarize self clock w text) w"
    if "validate_input text \<and> is_loaded (llm_provider self)
           \<and> map_of (stop_tokens (config self)) ''summarize'' \<noteq> None"
    using a that by (simp add: summarize_invoked)
next
  assume a: "cached_value (tone_cache (cache_service w)) (tone_key text target_tone) = Some []"
  show "\<not> answered_from_cache (fst (change_tone self clock w text target_tone))"
    using a change_tone_from_cache[of self clock w "text" target_tone] by auto
  show "invoked_provider (change_tone self clock w text target_tone) w"
    if "validate_input text \<and> is_loaded (llm_provider self)
           \<and> map_of (stop_tokens (config self)) ''tone_change'' \<noteq> None
           \<and> lower target_tone = ''formal''"
    using a that by (simp add: change_tone_invoked)
qed

theorem empty_cached_value_is_miss_witness:
  "cached_value (grammar_cache (cache_service (primed_world ''abc'' ''formal'' '''')))
        (normalize_key ''abc'') = Some ''''
   \<and> cached_value (summary_cache (cache_service (primed_world ''abc'' ''formal'' '''')))
        (normalize_key ''abc'') = Some ''''
   \<and> cached_value (tone_cache (cache_service (primed_world ''abc'' ''formal'' '''')))
        (tone_key ''abc'' ''formal'') = Some ''''
   \<and> validate_input ''abc'' \<and> is_loaded (llm_provider (mock_processor (Generated ''Abc.'')))
   \<and> map_of (stop_tokens (config (mock_processor (Generated ''Abc.'')))) ''default'' \<noteq> None
   \<and> map_of (stop_tokens (config (mock_processor (Generated ''Abc.'')))) ''summarize'' \<noteq> None
   \<and> map_of (stop_tokens (config (mock_processor (Generated ''Abc.'')))) ''tone_change'' \<noteq> None
   \<and> lower ''formal'' = ''formal''
   \<and> \<not> answered_from_cache (fst (fix_grammar (mock_processor (Generated ''Abc.'')) real
        (primed_world ''abc'' ''formal'' '''') ''abc''))
   \<and> invoked_provider (fix_grammar (mock_processor (Generated ''Abc.'')) real
        (primed_world ''abc'' ''formal'' '''') ''abc'') (primed_world ''abc'' ''formal'' '''')
   \<and> \<not> answered_from_cache (fst (summarize (mock_processor (Generated ''Abc.'')) real
        (primed_world ''abc'' ''formal'' '''') ''abc''))
   \<and> invoked_provider (summarize (mock_processor (Generated ''Abc.'')) real
        (primed_world ''abc'' ''formal'' '''') ''abc'') (primed_world ''abc'' ''formal'' '''')
   \<and> \<not> answered_from_cache (fst (change_tone (mock_processor (Generated ''Abc.'')) real
        (primed_world ''abc'' ''formal'' '''') ''abc'' ''formal''))
   \<and> invoked_provider (change_tone (mock_processor (Generated ''Abc.'')) real
        (primed_world ''abc'' ''formal'' '''') ''abc'' ''formal'')
        (primed_world ''abc'' ''formal'' '''')"
  using empty_cached_value_is_miss[of "primed_world ''abc'' ''formal'' ''''" "''abc''"
          "mock_processor (Generated ''Abc.'')" real "''formal''"]
  by (simp add: validate_abc mock_loaded normalize_abc primed_grammar primed_summary primed_tone
        mock_stops lower_formal)

text \<open>
  C10 as stated fails when the call does not reach the provider for another reason.
  With the empty string cached for \<open>abc\<close> and a provider that is not loaded,
  \<open>fix_grammar\<close> returns its failed result and makes no request; with the empty string
  cached for \<open>abc\<close> under the tone \<open>casual\<close>, \<open>change_tone\<close> to \<open>casual\<close> makes no
  request either.
\<close>

theorem empty_cached_value_is_miss_counterexample:
  "cached_value (grammar_cache (cache_service (primed_world ''abc'' ''formal'' '''')))
        (normalize_key ''abc'') = Some ''''
   \<and> calls (snd (fix_grammar unloaded_processor real (primed_world ''abc'' ''formal'' '''')
        ''abc'')) = calls (primed_world ''abc'' ''formal'' '''')
   \<and> fst (fix_grammar unloaded_processor real (primed_world ''abc'' ''formal'' '''') ''abc'')
       = Inr (create_error_result ''abc'' (Some ''Grammar corrector not available''))
   \<and> cached_value (tone_cache (cache_service (primed_world ''abc'' ''casual'' '''')))
        (tone_key ''abc'' ''casual'') = Some ''''
   \<and> calls (snd (change_tone (mock_processor (Generated ''Abc.'')) real
        (primed_world ''abc'' ''casual'' '''') ''abc'' ''casual''))
       = calls (primed_world ''abc'' ''casual'' '''')
   \<and> fst (change_tone (mock_processor (Generated ''Abc.'')) real
        (primed_world ''abc'' ''casual'' '''') ''abc'' ''casual'')
       = Inr (create_error_result ''abc'' (Some ''Unsupported tone: casual''))"
proof -
  have g: "calls (snd (fix_grammar unloaded_processor real (primed_world ''abc'' ''formal'' '''')
        ''abc'')) = calls (primed_world ''abc'' ''formal'' '''')"
    "fst (fix_grammar unloaded_processor real (primed_world ''abc'' ''formal'' '''') ''abc'')
       = Inr (create_error_result ''abc'' (Some ''Grammar corrector not available''))"
    by (simp_all add: fix_grammar_def validate_abc is_available_def unloaded_not_loaded)
  have t: "calls (snd (change_tone (mock_processor (Generated ''Abc.'')) real
        (primed_world ''abc'' ''casual'' '''') ''abc'' ''casual''))
       = calls (primed_world ''abc'' ''casual'' '''')"
    "fst (change_tone (mock_processor (Generated ''Abc.'')) real
        (primed_world ''abc'' ''casual'' '''') ''abc'' ''casual'')
       = Inr (create_error_result ''abc'' (Some ''Unsupported tone: casual''))"
    by (simp_all add: change_tone_def proc_simps validate_abc mock_loaded primed_tone
          lower_casual)
  show ?thesis
    using g t by (simp add: normalize_abc primed_grammar primed_tone)
qed

section \<open>The token budget\<close>

lemma fix_grammar_max_tokens:
  "invoked_provider (fix_grammar self clock w text) w \<Longrightarrow>
   req_max_tokens (last (calls (snd (fix_grammar self clock w text))))
     = max (grammar_min_tokens (generation (config self)))
         (int (length text) * grammar_max_tokens_multiplier (generation (config self)))"
  by (auto simp: fix_grammar_def proc_simps invoked_provider_def
        split: option.splits gen_outcome.splits if_splits)

lemma summarize_max_tokens:
  "invoked_provider (summarize self clock w text) w \<Longrightarrow>
   req_max_tokens (last (calls (snd (summarize self clock w text))))
     = min (summary_max_tokens (generation (config self)))
         (max (summary_min_tokens (generation (config self))) (int (length text)))"
  by (auto simp: summarize_def proc_simps invoked_provider_def
        split: option.splits gen_outcome.splits if_splits)

lemma change_tone_max_tokens:
  "invoked_provider (change_tone self clock w text target_tone) w \<Longrightarrow>
   req_max_tokens (last (calls (snd (change_tone self clock w text target_tone))))
     = max (tone_min_tokens (generation (config self)))
         (int (length text) * tone_max_tokens_multiplier (generation (config self)))"
  by (auto simp: change_tone_def proc_simps invoked_provider_def
        split: option.splits gen_outcome.splits if_splits)

text \<open>
  C7.  With the default configuration, a processor makes its request to the provider
  exactly when the input is valid, the provider is loaded and the cache has no
  non-empty value for the input (and the tone is supported), and the \<open>max_tokens\<close> of
  that request is \<open>max(100, 4 * len(text))\<close> for a grammar correction,
  \<open>min(200, max(100, len(text)))\<close> for a summary and \<open>max(150, 2 * len(text))\<close> for a
  tone change, \<open>len(text)\<close> being the length of the input as given.
\<close>

theorem max_tokens_default:
  assumes "config self = CONFIG"
  shows "(invoked_provider (fix_grammar self clock w text) w
            = (validate_input text \<and> is_loaded (llm_provider self)
               \<and> \<not> truthy (cached_value (grammar_cache (cache_service w)) (normalize_key text))))
       \<and> (invoked_provider (fix_grammar self clock w text) w \<longrightarrow>
            req_max_tokens (last (calls (snd (fix_grammar self clock w text))))
              = max 100 (4 * int (length text)))
       \<and> (invoked_provider (summarize self clock w text) w
            = (validate_input text \<and> is_loaded (llm_provider self)
               \<and> \<not> truthy (cached_value (summary_cache (cache_service w)) (normalize_key text))))
       \<and> (invoked_provider (summarize self clock w text) w \<longrightarrow>
            req_max_tokens (last (calls (snd (summarize self clock w text))))
              = min 200 (max 100 (int (length text))))
       \<and> (invoked_provider (change_tone self clock w text target_tone) w
            = (validate_input text \<and> is_loaded (llm_provider self)
               \<and> \<not> truthy (cached_value (tone_cache (cache_service w)) (tone_key text target_tone))
               \<and> lower target_tone = ''formal''))
       \<and> (invoked_provider (change_tone self clock w text target_tone) w \<longrightarrow>
            req_max_tokens (last (calls (snd (change_tone self clock w text target_tone))))
              = max 150 (2 * int (length text)))"
proof -
  have gen: "generation (config self) = default_GenerationConfig"
    using assms by (simp add: CONFIG_def)
  have stops: "map_of (stop_tokens (config self)) ''default'' \<noteq> None"
    "map_of (stop_tokens (config self)) ''summarize'' \<noteq> None"
    "map_of (stop_tokens (config self)) ''tone_change'' \<noteq> None"
    using assms CONFIG_stops by simp_all
  show ?thesis
    by (simp add: fix_grammar_invoked[OF stops(1)] summarize_invoked[OF stops(2)]
          change_tone_invoked[OF stops(3)] fix_grammar_max_tokens summarize_max_tokens
          change_tone_max_tokens gen default_GenerationConfig_def mult.commute)
qed

theorem max_tokens_default_witness:
  "config (mock_processor (Generated ''Abc.'')) = CONFIG
   \<and> invoked_provider (fix_grammar (mock_processor (Generated ''Abc.'')) real fresh_world
        ''this is a test sentance, okay?'') fresh_world
   \<and> req_max_tokens (last (calls (snd (fix_grammar (mock_processor (Generated ''Abc.'')) real
        fresh_world ''this is a test sentance, okay?'')))) = 120
   \<and> invoked_provider (summarize (mock_processor (Generated ''Abc.'')) real fresh_world
        ''this is a test sentance, okay?'') fresh_world
   \<and> req_max_tokens (last (calls (snd (summarize (mock_processor (Generated ''Abc.'')) real
        fresh_world ''this is a test sentance, okay?'')))) = 100
   \<and> invoked_provider (change_tone (mock_processor (Generated ''Abc.'')) real fresh_world
        ''this is a test sentance, okay?'' ''formal'') fresh_world
   \<and> req_max_tokens (last (calls (snd (change_tone (mock_processor (Generated ''Abc.'')) real
        fresh_world ''this is a test sentance, okay?'' ''formal'')))) = 150"
proof -
  have v: "validate_input ''this is a test sentance, okay?''"
    by (simp add: validate_input_def strip_def isspace_def)
  show ?thesis
    using max_tokens_default[OF mock_config[of "Generated ''Abc.''"], of real fresh_world
            "''this is a test sentance, okay?''" "''formal''"]
    by (simp add: v mock_loaded mock_config fresh_miss lower_formal)
qed

section \<open>Validation of the response\<close>

lemma under_30_percent_strip:
  "under_30_percent out text \<Longrightarrow> under_30_percent (strip out) text"
  using length_strip_le[of out] by (simp add: under_30_percent_def)

lemma fix_grammar_response:
  assumes "provider_returned self (fix_grammar self clock w text) w (Generated gen)"
  shows "strip gen = [] \<or> under_30_percent (strip gen) text \<Longrightarrow>
           fst (fix_grammar self clock w text)
             = Inr (create_error_result text (Some ''Invalid response from model''))"
    and "\<not> (strip gen = [] \<or> under_30_percent (strip gen) text) \<Longrightarrow>
           succeeded_with (fst (fix_grammar self clock w text)) (strip gen)"
  using assms
  by (auto simp: fix_grammar_def proc_simps provider_returned_def invoked_provider_def
        under_30_percent_def succeeded_with_def
        split: option.splits gen_outcome.splits if_splits)

lemma change_tone_response:
  assumes "provider_returned self (change_tone self clock w text target_tone) w (Generated gen)"
  shows "strip gen = [] \<or> under_30_percent (strip gen) text \<Longrightarrow>
           fst (change_tone self clock w text target_tone)
             = Inr (create_error_result text (Some ''Invalid tone change response''))"
    and "\<not> (strip gen = [] \<or> under_30_percent (strip gen) text) \<Longrightarrow>
           succeeded_with (fst (change_tone self clock w text target_tone)) (strip gen)"
  using assms
  by (auto simp: change_tone_def proc_simps provider_returned_def invoked_provider_def
        under_30_percent_def succeeded_with_def
        split: option.splits gen_outcome.splits if_splits)

lemma summarize_response:
  assumes "provider_returned self (summarize self clock w text) w (Generated gen)"
  shows "strip gen = [] \<Longrightarrow>
           fst (summarize self clock w text)
             = Inr (create_error_result text (Some ''Empty summary response''))"
    and "strip gen \<noteq> [] \<Longrightarrow> succeeded_with (fst (summarize self clock w text)) (strip gen)"
  using assms
  by (auto simp: summarize_def proc_simps provider_returned_def invoked_provider_def
        succeeded_with_def split: option.splits gen_outcome.splits if_splits)

text \<open>
  C5, as amended.  For a grammar correction and for a tone change, if the provider
  returns an output that is empty or shorter than 30 percent of the input, the call
  returns the failed result of \<open>_create_error_result\<close>, whose \<open>processed_text\<close> is the
  input.  For a summary the output is rejected exactly when nothing is left of it once
  the whitespace at its ends is stripped, again with the failed result that carries the
  input; an output with anything else in it, of any length, gives a success whose
  \<open>processed_text\<close> is the stripped output.
\<close>

theorem degenerate_response_rejected:
  "(provider_returned self (fix_grammar self clock w text) w (Generated gen)
      \<and> (gen = [] \<or> under_30_percent gen text) \<longrightarrow>
        fst (fix_grammar self clock w text)
          = Inr (create_error_result text (Some ''Invalid response from model''))
        \<and> is_failure (fst (fix_grammar self clock w text))
        \<and> processed_text (create_error_result text (Some ''Invalid response from model''))
            = text)
   \<and> (provider_returned self (change_tone self clock w text target_tone) w (Generated gen)
      \<and> (gen = [] \<or> under_30_percent gen text) \<longrightarrow>
        fst (change_tone self clock w text target_tone)
          = Inr (create_error_result text (Some ''Invalid tone change response''))
        \<and> is_failure (fst (change_tone self clock w text target_tone))
        \<and> processed_text (create_error_result text (Some ''Invalid tone change response''))
            = text)
   \<and> (provider_returned self (summarize self clock w text) w (Generated gen) \<longrightarrow>
        succeeded (fst (summarize self clock w text)) = (strip gen \<noteq> [])
        \<and> (strip gen = [] \<longrightarrow>
             fst (summarize self clock w text)
               = Inr (create_error_result text (Some ''Empty summary response''))
             \<and> processed_text (create_error_result text (Some ''Empty summary response''))
                 = text)
        \<and> (strip gen \<noteq> [] \<longrightarrow>
             succeeded_with (fst (summarize self clock w text)) (strip gen)))"
proof (intro conjI impI)
  assume a: "provider_returned self (fix_grammar self clock w text) w (Generated gen)
      \<and> (gen = [] \<or> under_30_percent gen text)"
  then have "strip gen = [] \<or> under_30_percent (strip gen) text"
    using under_30_percent_strip by auto
  then show r: "fst (fix_grammar self clock w text)
          = Inr (create_error_result text (Some ''Invalid response from model''))"
    using a fix_grammar_response(1)[of self clock w "text" gen] by blast
  show "is_failure (fst (fix_grammar self clock w text))"
    by (simp add: r is_failure_def create_error_result_def)
  show "processed_text (create_error_result text (Some ''Invalid response from model'')) = text"
    by (simp add: create_error_result_def)
next
  assume a: "provider_returned self (change_tone self clock w text target_tone) w (Generated gen)
      \<and> (gen = [] \<or> under_30_percent gen text)"
  then have "strip gen = [] \<or> under_30_percent (strip gen) text"
    using under_30_percent_strip by auto
  then show r: "fst (change_tone self clock w text target_tone)
          = Inr (create_error_result text (Some ''Invalid tone change response''))"
    using a change_tone_response(1)[of self clock w "text" target_tone gen] by blast
  show "is_failure (fst (change_tone self clock w text target_tone))"
    by (simp add: r is_failure_def create_error_result_def)
  show "processed_text (create_error_result text (Some ''Invalid tone change response'')) = text"
    by (simp add: create_error_result_def)
next
  assume a: "provider_returned self (summarize self clock w text) w (Generated gen)"
  show "succeeded (fst (summarize self clock w text)) = (strip gen \<noteq> [])"
  proof (cases "strip gen = []")
    case True
    then show ?thesis
      using summarize_response(1)[OF a] by (simp add: succeeded_def create_error_result_def)
  next
    case False
    then show ?thesis
      using summarize_response(2)[OF a]
      by (auto simp: succeeded_def succeeded_with_def split: sum.splits)
  qed
  show "fst (summarize self clock w text)
               = Inr (create_error_result text (Some ''Empty summary response''))"
    if "strip gen = []"
    using that summarize_response(1)[OF a] by simp
  show "processed_text (create_error_result text (Some ''Empty summary response'')) = text"
    if "strip gen = []"
    by (simp add: create_error_result_def)
  show "succeeded_with (fst (summarize self clock w text)) (strip gen)" if "strip gen \<noteq> []"
    using that summarize_response(2)[OF a] by simp
qed

theorem degenerate_response_rejected_witness:
  "provider_returned (mock_processor (Generated ''a''))
     (fix_grammar (mock_processor (Generated ''a'')) real fresh_world ''abcdefghij'')
     fresh_world (Generated ''a'')
   \<and> provider_returned (mock_processor (Generated ''a''))
     (change_tone (mock_processor (Generated ''a'')) real fresh_world ''abcdefghij'' ''formal'')
     fresh_world (Generated ''a'')
   \<and> provider_returned (mock_processor (Generated ''a''))
     (summarize (mock_processor (Generated ''a'')) real fresh_world ''abcdefghij'')
     fresh_world (Generated ''a'')
   \<and> under_30_percent ''a'' ''abcdefghij'' \<and> strip ''a'' \<noteq> []
   \<and> fst (fix_grammar (mock_processor (Generated ''a'')) real fresh_world ''abcdefghij'')
       = Inr (create_error_result ''abcdefghij'' (Some ''Invalid response from model''))
   \<and> fst (change_tone (mock_processor (Generated ''a'')) real fresh_world ''abcdefghij''
          ''formal'')
       = Inr (create_error_result ''abcdefghij'' (Some ''Invalid tone change response''))
   \<and> succeeded_with
        (fst (summarize (mock_processor (Generated ''a'')) real fresh_world ''abcdefghij''))
        ''a''
   \<and> provider_returned (mock_processor (Generated '' ''))
     (summarize (mock_processor (Generated '' '')) real fresh_world ''abcdefghij'')
     fresh_world (Generated '' '')
   \<and> strip '' '' = []
   \<and> fst (summarize (mock_processor (Generated '' '')) real fresh_world ''abcdefghij'')
       = Inr (create_error_result ''abcdefghij'' (Some ''Empty summary response''))"
proof -
  have s: "strip ''a'' = ''a''" "strip '' '' = []" by (simp_all add: strip_def isspace_def)
  have u: "under_30_percent ''a'' ''abcdefghij''" by (simp add: under_30_percent_def)
  show ?thesis
    using degenerate_response_rejected[of "mock_processor (Generated ''a'')" real fresh_world
            "''abcdefghij''" "''a''" "''formal''"]
          degenerate_response_rejected[of "mock_processor (Generated '' '')" real fresh_world
            "''abcdefghij''" "'' ''" "''formal''"]
    by (simp add: mock_returned validate_ten s u)
qed

text \<open>
  C5 as stated fails for a summary when the provider returns an output that is not
  empty but is only whitespace, here one space: the result is a failed one.
\<close>

theorem degenerate_response_rejected_counterexample:
  "'' '' \<noteq> []
   \<and> provider_returned (mock_processor (Generated '' ''))
        (summarize (mock_processor (Generated '' '')) real fresh_world ''abc'')
        fresh_world (Generated '' '')
   \<and> is_failure (fst (summarize (mock_processor (Generated '' '')) real fresh_world ''abc''))"
proof -
  have "is_failure (fst (summarize (mock_processor (Generated '' '')) real fresh_world ''abc''))"
    by (simp add: summarize_def world_defs run_defs normalize_abc is_failure_def)
  then show ?thesis by (simp add: mock_returned validate_abc)
qed

section \<open>Unsupported tones\<close>

text \<open>
  C4, as amended.  A target tone whose lower-case form is not \<open>formal\<close> never reaches
  the provider, whatever the text and the state; the call returns a result, which is a
  success only from a value already in the cache under that tone; on a valid text, with
  the provider loaded and no such value in the cache, the result is the failed one with
  the message \<open>Unsupported tone:\<close> and the tone, and the input as \<open>processed_text\<close>.
\<close>

theorem unsupported_tone_rejected:
  assumes "lower target_tone \<noteq> ''formal''"
  shows "calls (snd (change_tone self clock w text target_tone)) = calls w
       \<and> \<not> isl (fst (change_tone self clock w text target_tone))
       \<and> (succeeded (fst (change_tone self clock w text target_tone)) \<longrightarrow>
            truthy (cached_value (tone_cache (cache_service w)) (tone_key text target_tone)))
       \<and> (validate_input text \<and> is_loaded (llm_provider self)
            \<and> \<not> truthy (cached_value (tone_cache (cache_service w)) (tone_key text target_tone))
          \<longrightarrow> fst (change_tone self clock w text target_tone)
                = Inr (create_error_result text (Some (''Unsupported tone: '' @ target_tone)))
              \<and> is_failure (fst (change_tone self clock w text target_tone))
              \<and> processed_text
                   (create_error_result text (Some (''Unsupported tone: '' @ target_tone)))
                  = text)"
  using assms
  by (auto simp: change_tone_def proc_simps succeeded_def is_failure_def
        split: option.splits gen_outcome.splits)

theorem unsupported_tone_rejected_witness:
  "lower ''casual'' \<noteq> ''formal''
   \<and> validate_input ''abc'' \<and> is_loaded (llm_provider (mock_processor (Generated ''Abc.'')))
   \<and> \<not> truthy (cached_value (tone_cache (cache_service fresh_world)) (tone_key ''abc'' ''casual''))
   \<and> calls (snd (change_tone (mock_processor (Generated ''Abc.'')) real fresh_world ''abc''
               ''casual'')) = calls fresh_world
   \<and> fst (change_tone (mock_processor (Generated ''Abc.'')) real fresh_world ''abc'' ''casual'')
       = Inr (create_error_result ''abc'' (Some ''Unsupported tone: casual''))"
proof -
  have h: "lower ''casual'' \<noteq> ''formal''" by (simp add: lower_casual)
  show ?thesis
    using h unsupported_tone_rejected[OF h, of "mock_processor (Generated ''Abc.'')" real
            fresh_world "''abc''"]
    by (simp add: validate_abc mock_loaded fresh_miss)
qed

text \<open>
  C4 as stated fails for the target tone \<open>FORMAL\<close>, a string other than \<open>formal\<close>: the
  comparison is made on the lower-case form, so the call makes its request to the
  provider and succeeds.
\<close>

theorem unsupported_tone_rejected_counterexample:
  "''FORMAL'' \<noteq> ''formal'' \<and> ''abc'' \<noteq> []
   \<and> calls fresh_world = []
   \<and> length (calls (snd (change_tone (mock_processor (Generated ''Abc.'')) real fresh_world
        ''abc'' ''FORMAL''))) = 1
   \<and> succeeded (fst (change_tone (mock_processor (Generated ''Abc.'')) real fresh_world ''abc''
        ''FORMAL''))"
  by (simp add: change_tone_def world_defs run_defs normalize_abc lower_FORMAL succeeded_def)

section \<open>Errors\<close>

lemma failed_safely_iff:
  "failed_safely self out w text =
     (\<exists>r. fst out = Inr r \<and> \<not> success r \<and> original_text r = text \<and> processed_text r = text
        \<and> stored (cache_service (snd out)) = stored (cache_service w)
        \<and> ((error_message r = None \<and> provider_returned self out w (Failed None))
           \<or> (\<exists>msg. error_message r = Some msg
                 \<and> (msg \<noteq> [] \<or> provider_returned self out w (Failed (Some msg))
                     \<or> provider_returned self out w (Raised msg)))))"
proof (cases "fst out")
  case (Inl e)
  then show ?thesis by (simp add: failed_safely_def)
next
  case (Inr r)
  then show ?thesis
    by (cases "error_message r") (simp_all add: failed_safely_def)
qed

lemma propagated_iff:
  "(case x of Inl (Propagated e) \<Rightarrow> P e | Inr r \<Rightarrow> True) = (\<forall>e. x = Inl (Propagated e) \<longrightarrow> P e)"
  by (auto split: sum.splits fault.splits)

lemmas contained_simps = proc_simps errors_contained_def failed_safely_iff propagated_iff
  is_failure_def provider_returned_def invoked_provider_def KeyError_str_def
  under_30_percent_def

lemma fix_grammar_contained:
  "errors_contained self (fix_grammar self clock w text) w text err msg
     (provider_returned self (fix_grammar self clock w text) w (Generated gen)
      \<and> (strip gen = [] \<or> under_30_percent (strip gen) text))
     False"
  by (auto simp: fix_grammar_def contained_simps
        split: option.splits gen_outcome.splits if_splits)

lemma summarize_contained:
  "errors_contained self (summarize self clock w text) w text err msg
     (provider_returned self (summarize self clock w text) w (Generated gen)
      \<and> strip gen = [])
     False"
  by (auto simp: summarize_def contained_simps
        split: option.splits gen_outcome.splits if_splits)

lemma change_tone_contained:
  "errors_contained self (change_tone self clock w text target_tone) w text err msg
     (provider_returned self (change_tone self clock w text target_tone) w (Generated gen)
      \<and> (strip gen = [] \<or> under_30_percent (strip gen) text))
     (lower target_tone \<noteq> ''formal''
      \<and> \<not> truthy (cached_value (tone_cache (cache_service w)) (tone_key text target_tone)))"
  by (auto simp: change_tone_def contained_simps
        split: option.splits gen_outcome.splits if_splits)

text \<open>
  C6, as amended.  For each of the three processors and every input, state and
  behaviour of the provider: an invalid input, a provider that is not loaded, an error
  answer of the provider, an exception of the provider that is an instance of
  \<open>Exception\<close>, a response that the validation rejects and (for a tone change, when the
  cache has no value for the tone) an unsupported tone all give a returned result with
  \<open>success\<close> false; for the error answer the \<open>error_message\<close> is the provider's
  \<open>error\<close>, for the exception it is the exception's message.  Every failed result has
  the input text in \<open>original_text\<close> and in \<open>processed_text\<close> and leaves every key and
  value of the three caches as it was; its \<open>error_message\<close> is a non-empty string,
  unless it is the provider's \<open>error\<close> or the message of its exception and that one is
  empty or \<open>None\<close>.  An exception leaves the call only when the provider raised one
  that is not an \<open>Exception\<close>, such as \<open>KeyboardInterrupt\<close>.
\<close>

theorem errors_become_failed_results:
  "errors_contained self (fix_grammar self clock w text) w text err msg
     (provider_returned self (fix_grammar self clock w text) w (Generated gen)
      \<and> (strip gen = [] \<or> under_30_percent (strip gen) text))
     False
   \<and> errors_contained self (summarize self clock w text) w text err msg
     (provider_returned self (summarize self clock w text) w (Generated gen)
      \<and> strip gen = [])
     False
   \<and> errors_contained self (change_tone self clock w text target_tone) w text err msg
     (provider_returned self (change_tone self clock w text target_tone) w (Generated gen)
      \<and> (strip gen = [] \<or> under_30_percent (strip gen) text))
     (lower target_tone \<noteq> ''formal''
      \<and> \<not> truthy (cached_value (tone_cache (cache_service w)) (tone_key text target_tone)))"
  by (intro conjI fix_grammar_contained summarize_contained change_tone_contained)

theorem errors_become_failed_results_witness:
  "\<not> validate_input '' ''
   \<and> failed_safely (mock_processor (Raised ''boom''))
        (fix_grammar (mock_processor (Raised ''boom'')) real fresh_world '' '') fresh_world '' ''
   \<and> \<not> is_loaded (llm_provider unloaded_processor)
   \<and> failed_safely unloaded_processor
        (summarize unloaded_processor real fresh_world ''abc'') fresh_world ''abc''
   \<and> provider_returned (mock_processor (Failed None))
        (summarize (mock_processor (Failed None)) real fresh_world ''abc'')
        fresh_world (Failed None)
   \<and> fst (summarize (mock_processor (Failed None)) real fresh_world ''abc'')
       = Inr (create_error_result ''abc'' None)
   \<and> failed_safely (mock_processor (Failed None))
        (summarize (mock_processor (Failed None)) real fresh_world ''abc'') fresh_world ''abc''
   \<and> provider_returned (mock_processor (Raised ''boom''))
        (fix_grammar (mock_processor (Raised ''boom'')) real fresh_world ''abc'')
        fresh_world (Raised ''boom'')
   \<and> fst (fix_grammar (mock_processor (Raised ''boom'')) real fresh_world ''abc'')
       = Inr (create_error_result ''abc'' (Some ''boom''))
   \<and> failed_safely (mock_processor (Raised ''boom''))
        (fix_grammar (mock_processor (Raised ''boom'')) real fresh_world ''abc'') fresh_world
        ''abc''
   \<and> provider_returned (mock_processor (Generated ''a''))
        (fix_grammar (mock_processor (Generated ''a'')) real fresh_world ''abcdefghij'')
        fresh_world (Generated ''a'')
   \<and> under_30_percent (strip ''a'') ''abcdefghij''
   \<and> failed_safely (mock_processor (Generated ''a''))
        (fix_grammar (mock_processor (Generated ''a'')) real fresh_world ''abcdefghij'')
        fresh_world ''abcdefghij''
   \<and> lower ''casual'' \<noteq> ''formal''
   \<and> \<not> truthy (cached_value (tone_cache (cache_service fresh_world)) (tone_key ''abc'' ''casual''))
   \<and> failed_safely (mock_processor (Raised ''boom''))
        (change_tone (mock_processor (Raised ''boom'')) real fresh_world ''abc'' ''casual'')
        fresh_world ''abc''
   \<and> fst (fix_grammar (mock_processor (Interrupted ''KeyboardInterrupt'')) real fresh_world
        ''abc'') = Inl (Propagated ''KeyboardInterrupt'')
   \<and> provider_returned (mock_processor (Interrupted ''KeyboardInterrupt''))
        (fix_grammar (mock_processor (Interrupted ''KeyboardInterrupt'')) real fresh_world
           ''abc'')
        fresh_world (Interrupted ''KeyboardInterrupt'')"
proof -
  have s: "strip ''a'' = ''a''" by (simp add: strip_def isspace_def)
  have u: "under_30_percent (strip ''a'') ''abcdefghij''"
    by (simp add: s under_30_percent_def)
  have i: "fst (fix_grammar (mock_processor (Interrupted ''KeyboardInterrupt'')) real
        fresh_world ''abc'') = Inl (Propagated ''KeyboardInterrupt'')"
    by (simp add: fix_grammar_def world_defs run_defs normalize_abc)
  show ?thesis
    using u i
      errors_become_failed_results[of "mock_processor (Raised ''boom'')" real fresh_world
        "'' ''" None "''boom''" "''a''" "''casual''"]
      errors_become_failed_results[of unloaded_processor real fresh_world
        "''abc''" None "''boom''" "''a''" "''casual''"]
      errors_become_failed_results[of "mock_processor (Failed None)" real fresh_world
        "''abc''" None "''boom''" "''a''" "''casual''"]
      errors_become_failed_results[of "mock_processor (Raised ''boom'')" real fresh_world
        "''abc''" None "''boom''" "''a''" "''casual''"]
      errors_become_failed_results[of "mock_processor (Generated ''a'')" real fresh_world
        "''abcdefghij''" None "''boom''" "''a''" "''casual''"]
      errors_become_failed_results[of "mock_processor (Interrupted ''KeyboardInterrupt'')"
        real fresh_world "''abc''" None "''boom''" "''a''" "''casual''"]
    by (simp add: errors_contained_def validate_blank validate_abc validate_ten mock_returned
          unloaded_not_loaded lower_casual fresh_miss is_failure_def create_error_result_def)
qed

text \<open>
  C6 as stated fails in two ways.  When the provider raises an \<open>Exception\<close> whose
  message is empty, the failed result has the empty string as its \<open>error_message\<close>.
  When the provider raises an exception that is not an \<open>Exception\<close>, the
  \<open>except Exception\<close> clause does not catch it: no result is returned, the exception
  leaves \<open>fix_grammar\<close>.
\<close>

theorem errors_become_failed_results_counterexample:
  "provider_returned (mock_processor (Raised ''''))
     (fix_grammar (mock_processor (Raised '''')) real fresh_world ''abc'')
     fresh_world (Raised '''')
   \<and> fst (fix_grammar (mock_processor (Raised '''')) real fresh_world ''abc'')
       = Inr (create_error_result ''abc'' (Some ''''))
   \<and> error_message (create_error_result ''abc'' (Some '''')) = Some ''''
   \<and> provider_returned (mock_processor (Interrupted ''KeyboardInterrupt''))
        (fix_grammar (mock_processor (Interrupted ''KeyboardInterrupt'')) real fresh_world
           ''abc'')
        fresh_world (Interrupted ''KeyboardInterrupt'')
   \<and> fst (fix_grammar (mock_processor (Interrupted ''KeyboardInterrupt'')) real fresh_world
        ''abc'') = Inl (Propagated ''KeyboardInterrupt'')"
proof -
  have "fst (fix_grammar (mock_processor (Raised '''')) real fresh_world ''abc'')
          = Inr (create_error_result ''abc'' (Some ''''))"
    by (simp add: fix_grammar_def world_defs run_defs normalize_abc)
  moreover have "fst (fix_grammar (mock_processor (Interrupted ''KeyboardInterrupt'')) real
        fresh_world ''abc'') = Inl (Propagated ''KeyboardInterrupt'')"
    by (simp add: fix_grammar_def world_defs run_defs normalize_abc)
  ultimately show ?thesis by (simp add: mock_returned validate_abc create_error_result_def)
qed

end
